theory Spec2Isabelle
  imports Complex_Main
begin

section \<open>JavaScript values and numbers\<close>

text \<open>
  The value returned by \<^verbatim>\<open>JSON.parse\<close>. \<open>JNum x\<close> is a number whose text denotes \<open>x\<close>;
  reading it gives the nearest double (\<open>rnd x\<close> below). An object is the list of its
  members in the order of the text; a key written twice keeps its last value, as
  \<^verbatim>\<open>JSON.parse\<close> does.
\<close>

datatype json =
    JNull
  | JBool bool
  | JNum real
  | JStr string
  | JArr "json list"
  | JObj "(string \<times> json) list"

text \<open>\<^verbatim>\<open>Math.round\<close>: the nearest integer, a half rounded towards plus infinity.\<close>

definition js_round :: "real \<Rightarrow> int" where
  "js_round x = \<lfloor>x + 1 / 2\<rfloor>"

section \<open>Doubles\<close>

text \<open>
  The score is computed in IEEE 754 binary64 arithmetic. A double is modelled by its real
  value, and each operation rounds the exact result to the nearest double. The range of
  the exponent is not bounded: overflow to an infinity and gradual underflow (magnitudes
  of \<open>2 ^ 1024\<close> and more, or below \<open>2 ^ -1022\<close>) are outside the model. The geometry of
  the gauge, further down, is computed on real numbers.
\<close>

text \<open>
  The binary exponent of a positive number, \<open>2 ^ e \<le> x < 2 ^ (e + 1)\<close>, found by counting
  up from 1 or down from 1.
\<close>

function up :: "real \<Rightarrow> nat \<Rightarrow> nat" where
  "up x n = (if 2 ^ (n + 1) \<le> x then up x (n + 1) else n)"
  by pat_completeness auto
termination
proof (relation "measure (\<lambda>(x, n). nat \<lceil>x\<rceil> - n)")
  show "wf (measure (\<lambda>(x, n). nat \<lceil>x\<rceil> - n))" by simp
next
  fix x :: real and n :: nat
  assume a: "2 ^ (n + 1) \<le> x"
  have "real (n + 1) < 2 ^ (n + 1)" by (rule of_nat_less_two_power)
  with a have "real (n + 1) < x" by linarith
  then have "n + 1 \<le> nat \<lceil>x\<rceil>" by linarith
  then show "((x, n + 1), (x, n)) \<in> measure (\<lambda>(x, n). nat \<lceil>x\<rceil> - n)" by simp
qed

declare up.simps [simp del]

function down :: "real \<Rightarrow> nat \<Rightarrow> nat" where
  "down x n = (if 0 < x \<and> x < (1 / 2) ^ n then down x (n + 1) else n)"
  by pat_completeness auto
termination
proof (relation "measure (\<lambda>(x, n). nat \<lceil>1 / x\<rceil> - n)")
  show "wf (measure (\<lambda>(x, n). nat \<lceil>1 / x\<rceil> - n))" by simp
next
  fix x :: real and n :: nat
  assume a: "0 < x \<and> x < (1 / 2) ^ n"
  then have "x * 2 ^ n < 1" by (simp add: power_one_over field_simps)
  with a have "2 ^ n < 1 / x" by (simp add: field_simps)
  moreover have "real n < 2 ^ n" by (rule of_nat_less_two_power)
  ultimately have "real n < 1 / x" by linarith
  then have "n + 1 \<le> nat \<lceil>1 / x\<rceil>" by linarith
  then show "((x, n + 1), (x, n)) \<in> measure (\<lambda>(x, n). nat \<lceil>1 / x\<rceil> - n)" by simp
qed

declare down.simps [simp del]

definition expo :: "real \<Rightarrow> int" where
  "expo x = (if 1 \<le> x then int (up x 0) else - int (down x 0))"

text \<open>Rounding to the nearest integer, a tie to the even one.\<close>

definition rhe :: "real \<Rightarrow> int" where
  "rhe y =
     (let n = \<lfloor>y\<rfloor>; f = y - of_int n
      in if f < 1 / 2 then n else if 1 / 2 < f then n + 1 else if even n then n else n + 1)"

text \<open>The double nearest to a real number: 53 significant bits, a tie to the even
  significand.\<close>

definition rnd :: "real \<Rightarrow> real" where
  "rnd x =
     (if x = 0 then 0
      else sgn x * of_int (rhe (\<bar>x\<bar> / 2 powi (expo \<bar>x\<bar> - 52))) * 2 powi (expo \<bar>x\<bar> - 52))"


text \<open>The four operations of JavaScript on doubles.\<close>

definition fadd :: "real \<Rightarrow> real \<Rightarrow> real" where
  "fadd a b = rnd (a + b)"

definition fsub :: "real \<Rightarrow> real \<Rightarrow> real" where
  "fsub a b = rnd (a - b)"

definition fmul :: "real \<Rightarrow> real \<Rightarrow> real" where
  "fmul a b = rnd (a * b)"

definition fdiv :: "real \<Rightarrow> real \<Rightarrow> real" where
  "fdiv a b = rnd (a / b)"

text \<open>\<^verbatim>\<open>o.key\<close> on a parsed value that is not \<^verbatim>\<open>null\<close>: \<open>None\<close> is \<^verbatim>\<open>undefined\<close>.
  Arrays, strings, numbers and booleans have no member of the three tally names.\<close>

fun jsMember :: "json \<Rightarrow> string \<Rightarrow> json option" where
  "jsMember (JObj kvs) k = map_of (rev kvs) k"
| "jsMember _ k = None"

text \<open>\<^verbatim>\<open>typeof o.key === "number"\<close>, giving the number, a double.\<close>

definition numberMember :: "json \<Rightarrow> string \<Rightarrow> real option" where
  "numberMember obj k = (case jsMember obj k of Some (JNum x) \<Rightarrow> Some (rnd x) | _ \<Rightarrow> None)"

text \<open>\<^verbatim>\<open>obj && typeof obj === "object"\<close>: objects and arrays, not \<^verbatim>\<open>null\<close>.\<close>

fun isObject :: "json \<Rightarrow> bool" where
  "isObject (JObj _) = True"
| "isObject (JArr _) = True"
| "isObject _ = False"

section \<open>ScoreAggregator\<close>

text \<open>The three accumulators \<^verbatim>\<open>P\<close>, \<^verbatim>\<open>Neut\<close>, \<^verbatim>\<open>Neg\<close> of the \<^verbatim>\<open>/fetch\<close> handlers.\<close>

record tallies =
  sumP :: real
  sumNeut :: real
  sumNeg :: real

definition zeroSums :: tallies where
  "zeroSums = \<lparr>sumP = 0, sumNeut = 0, sumNeg = 0\<rparr>"

text \<open>One iteration of \<^verbatim>\<open>for (const obj of parsedAny)\<close>.\<close>

definition addTally :: "tallies \<Rightarrow> json \<Rightarrow> tallies" where
  "addTally acc obj =
     (if isObject obj then
        \<lparr>sumP = (case numberMember obj ''Positive'' of
                   Some x \<Rightarrow> fadd (sumP acc) x | None \<Rightarrow> sumP acc),
         sumNeut = (case numberMember obj ''Neutral'' of
                      Some x \<Rightarrow> fadd (sumNeut acc) x | None \<Rightarrow> sumNeut acc),
         sumNeg = (case numberMember obj ''Negative'' of
                     Some x \<Rightarrow> fadd (sumNeg acc) x | None \<Rightarrow> sumNeg acc)\<rparr>
      else acc)"

text \<open>The branch for a single object: the members are assigned, not added.\<close>

definition setTally :: "json \<Rightarrow> tallies" where
  "setTally obj =
     \<lparr>sumP = (case numberMember obj ''Positive'' of Some x \<Rightarrow> x | None \<Rightarrow> 0),
      sumNeut = (case numberMember obj ''Neutral'' of Some x \<Rightarrow> x | None \<Rightarrow> 0),
      sumNeg = (case numberMember obj ''Negative'' of Some x \<Rightarrow> x | None \<Rightarrow> 0)\<rparr>"

text \<open>
  The sums as \<^verbatim>\<open>api/index.mjs\<close>, \<^verbatim>\<open>api/logout.js\<close> and the serverless handler compute them:
  the single-object branch is guarded by \<^verbatim>\<open>parsed && typeof parsed === "object"\<close>.
\<close>

fun tallySums :: "json \<Rightarrow> tallies" where
  "tallySums (JArr xs) = foldl addTally zeroSums xs"
| "tallySums (JObj kvs) = setTally (JObj kvs)"
| "tallySums _ = zeroSums"

text \<open>
  The sums as \<^verbatim>\<open>server.js\<close> computes them: the single-object branch is guarded by
  \<^verbatim>\<open>typeof parsedAny === "object"\<close> only, so \<^verbatim>\<open>null\<close> enters it and reading
  \<^verbatim>\<open>parsedAny.Positive\<close> throws (\<open>None\<close>).
\<close>

fun tallySums_server :: "json \<Rightarrow> tallies option" where
  "tallySums_server (JArr xs) = Some (foldl addTally zeroSums xs)"
| "tallySums_server (JObj kvs) = Some (setTally (JObj kvs))"
| "tallySums_server JNull = None"
| "tallySums_server _ = Some zeroSums"

text \<open>
  \<^verbatim>\<open>const T = P + Neut + Neg || tweetsToSend.length || 0;\<close>
  \<^verbatim>\<open>if (T > 0) displayScore = Math.round(((P - Neg + T) / (2 * T)) * 100);\<close>
  \<open>None\<close> is \<^verbatim>\<open>displayScore === null\<close>.
\<close>

definition denominator :: "tallies \<Rightarrow> nat \<Rightarrow> real" where
  "denominator t sent =
     (if fadd (fadd (sumP t) (sumNeut t)) (sumNeg t) \<noteq> 0
      then fadd (fadd (sumP t) (sumNeut t)) (sumNeg t)
      else real sent)"

definition scoreOf :: "tallies \<Rightarrow> nat \<Rightarrow> int option" where
  "scoreOf t sent =
     (let T = denominator t sent
      in if T > 0
         then Some (js_round (fmul (fdiv (fadd (fsub (sumP t) (sumNeg t)) T) (fmul 2 T)) 100))
         else None)"

text \<open>The whole \<^verbatim>\<open>try\<close> block; the first argument is \<open>None\<close> when \<^verbatim>\<open>JSON.parse\<close> throws.\<close>

definition displayScore :: "json option \<Rightarrow> nat \<Rightarrow> int option" where
  "displayScore parsed sent =
     (case parsed of None \<Rightarrow> None | Some j \<Rightarrow> scoreOf (tallySums j) sent)"

definition displayScore_server :: "json option \<Rightarrow> nat \<Rightarrow> int option" where
  "displayScore_server parsed sent =
     (case parsed of None \<Rightarrow> None
      | Some j \<Rightarrow> (case tallySums_server j of None \<Rightarrow> None | Some t \<Rightarrow> scoreOf t sent))"



definition fsum :: "real list \<Rightarrow> real" where
  "fsum xs = foldl fadd 0 xs"

section \<open>Configuration input\<close>

text \<open>
  The constants that every entry point destructures from \<^verbatim>\<open>process.env\<close>, after the
  defaults of the destructuring have been applied: each is a string. The two needle
  settings are read with \<^verbatim>\<open>Number(...)\<close>, a built-in: the record holds the number read,
  \<open>None\<close> for \<^verbatim>\<open>NaN\<close>.
\<close>

record env =
  GAUGE_LEFT :: string
  GAUGE_RIGHT :: string
  GAUGE_TOP :: string
  GAUGE_BOTTOM :: string
  THRESH_SB :: string
  THRESH_B :: string
  THRESH_N :: string
  THRESH_BU :: string
  PFP_X :: string
  PFP_Y :: string
  PFP_SIZE :: string
  HANDLE_X :: string
  HANDLE_Y :: string
  HANDLE_FONT_PX :: string
  HANDLE_COLOR :: string
  NEEDLE_LEN_SCALE :: "real option"
  NEEDLE_WIDTH_FRAC :: "real option"

definition defaultEnv :: env where
  "defaultEnv =
     \<lparr>GAUGE_LEFT = ''500'', GAUGE_RIGHT = ''500'', GAUGE_TOP = ''100'', GAUGE_BOTTOM = ''400'',
      THRESH_SB = ''20'', THRESH_B = ''40'', THRESH_N = ''60'', THRESH_BU = ''80'',
      PFP_X = ''175'', PFP_Y = ''200'', PFP_SIZE = ''100'',
      HANDLE_X = ''300'', HANDLE_Y = ''200'', HANDLE_FONT_PX = ''70'', HANDLE_COLOR = ''#ffffff'',
      NEEDLE_LEN_SCALE = Some 1, NEEDLE_WIDTH_FRAC = Some (25 / 1000)\<rparr>"

text \<open>The character class \<^verbatim>\<open>\d\<close> of a JavaScript regular expression.\<close>

definition isDigit :: "char \<Rightarrow> bool" where
  "isDigit c = (c \<in> set ''0123456789'')"

text \<open>
  \<^verbatim>\<open>String(v).match(/-?\d+/)\<close>: the text of the leftmost match. At each position the
  optional minus sign is tried first and must be followed by a digit; the digits are
  taken greedily.
\<close>

fun intMatch :: "string \<Rightarrow> string option" where
  "intMatch [] = None"
| "intMatch (c # cs) =
     (if c = CHR ''-'' \<and> (case cs of [] \<Rightarrow> False | d # _ \<Rightarrow> isDigit d)
        then Some (c # takeWhile isDigit cs)
      else if isDigit c then Some (takeWhile isDigit (c # cs))
      else intMatch cs)"

text \<open>\<^verbatim>\<open>parseInt(m[0], 10)\<close> on a matched text, that is an optional minus sign and digits.\<close>

definition digitsValue :: "string \<Rightarrow> nat" where
  "digitsValue ds = foldl (\<lambda>n c. 10 * n + (of_char c - 48)) 0 ds"

fun parseInt10 :: "string \<Rightarrow> int" where
  "parseInt10 [] = 0"
| "parseInt10 (c # cs) =
     (if c = CHR ''-'' then - int (digitsValue cs) else int (digitsValue (c # cs)))"

text \<open>
  \<^verbatim>\<open>Number.isFinite(n)\<close> for an integer read by \<^verbatim>\<open>parseInt\<close>: a magnitude of
  \<open>2 ^ 1024 - 2 ^ 970\<close> or more is read as an infinity. (Below that bound the integer is
  kept exactly; the rounding of doubles above \<open>2 ^ 53\<close> is not modelled.)
\<close>

definition isFinite :: "int \<Rightarrow> bool" where
  "isFinite n = (\<bar>n\<bar> < 2 ^ 1024 - 2 ^ 970)"

definition intish :: "string \<Rightarrow> int \<Rightarrow> int" where
  "intish v d =
     (case intMatch v of
        None \<Rightarrow> d
      | Some m \<Rightarrow> (let n = parseInt10 m in if isFinite n then n else d))"

section \<open>RenderConfig: thresholds\<close>

record thresholds =
  tSB :: int
  tB :: int
  tN :: int
  tBU :: int

text \<open>
  The thresholds as \<^verbatim>\<open>renderGaugeBuffer\<close> (\<^verbatim>\<open>server.js\<close>), \<^verbatim>\<open>renderCardPNG\<close>
  (\<^verbatim>\<open>api/index.mjs\<close>) and the serverless \<^verbatim>\<open>handler\<close> build them: each clamp starts at the
  threshold before.
\<close>

definition thresholdsOf :: "env \<Rightarrow> thresholds" where
  "thresholdsOf e =
     (let sb = max 0 (min 100 (intish (THRESH_SB e) 20));
          b = max sb (min 100 (intish (THRESH_B e) 40));
          n = max b (min 100 (intish (THRESH_N e) 60));
          bu = max n (min 100 (intish (THRESH_BU e) 80))
      in \<lparr>tSB = sb, tB = b, tN = n, tBU = bu\<rparr>)"

text \<open>
  The thresholds as the \<^verbatim>\<open>/fetch\<close> branch of \<^verbatim>\<open>api/logout.js\<close> builds them for
  \<^verbatim>\<open>gaugeHtml\<close>: each clamp starts at 0.
\<close>

definition thresholdsOf_gaugeHtml :: "env \<Rightarrow> thresholds" where
  "thresholdsOf_gaugeHtml e =
     \<lparr>tSB = max 0 (min 100 (intish (THRESH_SB e) 20)),
      tB = max 0 (min 100 (intish (THRESH_B e) 40)),
      tN = max 0 (min 100 (intish (THRESH_N e) 60)),
      tBU = max 0 (min 100 (intish (THRESH_BU e) 80))\<rparr>"

text \<open>The invariant of the threshold configuration.\<close>

definition ordered :: "thresholds \<Rightarrow> bool" where
  "ordered t = (0 \<le> tSB t \<and> tSB t \<le> tB t \<and> tB t \<le> tN t \<and> tN t \<le> tBU t \<and> tBU t \<le> 100)"

section \<open>StateClassifier\<close>

text \<open>\<^verbatim>\<open>Math.max(0, Math.min(100, score))\<close>.\<close>

definition clampScore :: "real \<Rightarrow> real" where
  "clampScore v = max 0 (min 100 v)"

text \<open>The \<^verbatim>\<open>bgFile\<close> selection chain, on the clamped score \<^verbatim>\<open>s\<close>.\<close>

definition bgFile :: "real \<Rightarrow> thresholds \<Rightarrow> string" where
  "bgFile s t =
     (if real_of_int (tSB t) \<le> s \<and> s < real_of_int (tB t) then ''bearish.png''
      else if real_of_int (tB t) \<le> s \<and> s < real_of_int (tN t) then ''neutral.png''
      else if real_of_int (tN t) \<le> s \<and> s < real_of_int (tBU t) then ''bullish.png''
      else if real_of_int (tBU t) \<le> s then ''strongly-bullish.png''
      else ''strongly-bearish.png'')"

text \<open>
  The five states and the partition of the specification, in its words:
  \<open>[0,t1)\<close> StronglyBearish, \<open>[t1,t2)\<close> Bearish, \<open>[t2,t3)\<close> Neutral, \<open>[t3,t4)\<close> Bullish,
  \<open>[t4,100]\<close> StronglyBullish; and the background asset of each state.
\<close>

datatype SentimentState = StronglyBearish | Bearish | Neutral | Bullish | StronglyBullish

definition classify_spec :: "real \<Rightarrow> thresholds \<Rightarrow> SentimentState" where
  "classify_spec s t =
     (if s < real_of_int (tSB t) then StronglyBearish
      else if s < real_of_int (tB t) then Bearish
      else if s < real_of_int (tN t) then Neutral
      else if s < real_of_int (tBU t) then Bullish
      else StronglyBullish)"

fun asset :: "SentimentState \<Rightarrow> string" where
  "asset StronglyBearish = ''strongly-bearish.png''"
| "asset Bearish = ''bearish.png''"
| "asset Neutral = ''neutral.png''"
| "asset Bullish = ''bullish.png''"
| "asset StronglyBullish = ''strongly-bullish.png''"

section \<open>GaugeGeometry\<close>

record rect =
  rect_x :: int
  rect_y :: int
  rect_w :: int
  rect_h :: int

text \<open>The drawable box, from the size of the image and the four insets.\<close>

definition gaugeRect :: "int \<Rightarrow> int \<Rightarrow> env \<Rightarrow> rect" where
  "gaugeRect width height e =
     \<lparr>rect_x = intish (GAUGE_LEFT e) 0,
      rect_y = intish (GAUGE_TOP e) 0,
      rect_w = max 0 (width - intish (GAUGE_LEFT e) 0 - intish (GAUGE_RIGHT e) 0),
      rect_h = max 0 (height - intish (GAUGE_TOP e) 0 - intish (GAUGE_BOTTOM e) 0)\<rparr>"

text \<open>\<^verbatim>\<open>r = Math.max(1, Math.min(rect.w / 2, rect.h))\<close>,
  \<^verbatim>\<open>cx = Math.round(rect.x + rect.w / 2)\<close>, \<^verbatim>\<open>cy = Math.round(rect.y + rect.h)\<close>.\<close>

definition radius :: "rect \<Rightarrow> real" where
  "radius b = max 1 (min (real_of_int (rect_w b) / 2) (real_of_int (rect_h b)))"

definition centerX :: "rect \<Rightarrow> int" where
  "centerX b = js_round (real_of_int (rect_x b) + real_of_int (rect_w b) / 2)"

definition centerY :: "rect \<Rightarrow> int" where
  "centerY b = js_round (real_of_int (rect_y b) + real_of_int (rect_h b))"

definition trackW :: "real \<Rightarrow> int" where
  "trackW r = max 6 (js_round (r * (11 / 100)))"

definition valueW :: "real \<Rightarrow> int" where
  "valueW r = max 4 (js_round (r * (8 / 100)))"

definition startAngle :: real where
  "startAngle = pi"

definition endAngle :: real where
  "endAngle = 2 * pi"

text \<open>The angle of the score \<^verbatim>\<open>s\<close> (the end of the value arc and the angle of the needle),
  and the angle taken by one round line cap.\<close>

definition thetaEnd :: "real \<Rightarrow> real" where
  "thetaEnd s = startAngle + (s / 100) * (endAngle - startAngle)"

definition capAngle :: "int \<Rightarrow> real \<Rightarrow> real" where
  "capAngle vw r = (real_of_int vw / 2) / r"

subsection \<open>Needle\<close>

text \<open>\<^verbatim>\<open>Math.max(0.1, Number(NEEDLE_LEN_SCALE) || 1.0)\<close> and
  \<^verbatim>\<open>Math.max(0.003, Number(NEEDLE_WIDTH_FRAC) || 0.025)\<close>.\<close>

definition orElse :: "real option \<Rightarrow> real \<Rightarrow> real" where
  "orElse n d = (case n of None \<Rightarrow> d | Some v \<Rightarrow> if v = 0 then d else v)"

definition needleScale :: "env \<Rightarrow> real" where
  "needleScale e = max (1 / 10) (orElse (NEEDLE_LEN_SCALE e) 1)"

definition needleWidthFrac :: "env \<Rightarrow> real" where
  "needleWidthFrac e = max (3 / 1000) (orElse (NEEDLE_WIDTH_FRAC e) (25 / 1000))"

text \<open>The default radii \<^verbatim>\<open>r1d\<close>, \<^verbatim>\<open>r2d\<close>, and the radii \<^verbatim>\<open>r1\<close>, \<^verbatim>\<open>r2\<close> after the
  needle has been rescaled around \<^verbatim>\<open>mid\<close>.\<close>

definition needle_r1d :: "real \<Rightarrow> real" where
  "needle_r1d r = r - real_of_int (max 10 (js_round (r * (30 / 100))))"

definition needle_r2d :: "real \<Rightarrow> real" where
  "needle_r2d r = r + real_of_int (max 8 (js_round (r * (5 / 100))))"

definition needle_mid :: "real \<Rightarrow> real" where
  "needle_mid r = (needle_r1d r + needle_r2d r) / 2"

definition needle_half :: "real \<Rightarrow> real" where
  "needle_half r = (needle_r2d r - needle_r1d r) / 2"

definition needle_halfNew :: "real \<Rightarrow> real \<Rightarrow> real" where
  "needle_halfNew r scale = needle_half r * scale"

definition needle_r1 :: "real \<Rightarrow> real \<Rightarrow> real" where
  "needle_r1 r scale = needle_mid r - needle_halfNew r scale"

definition needle_r2 :: "real \<Rightarrow> real \<Rightarrow> real" where
  "needle_r2 r scale = needle_mid r + needle_halfNew r scale"

definition needleWidth :: "real \<Rightarrow> real \<Rightarrow> int" where
  "needleWidth r widthFrac = max 2 (js_round (r * widthFrac))"

section \<open>GaugeRenderer\<close>

text \<open>
  The calls made on the drawing surface, one constructor for each layer. A colour is a
  \<^verbatim>\<open>#rrggbb\<close> string, an \<^verbatim>\<open>rgb(r,g,b)\<close> string or a conic gradient (start angle,
  centre, colour stops). An arc carries stroke style, line cap, line width, centre,
  radius, start and end angle; the needle carries stroke style, line cap, line width and
  its two end points.
\<close>

datatype lineCap = RoundCap | ButtCap

datatype paint =
    Hex string
  | Rgb int int int
  | Conic real int int "(real \<times> int \<times> int \<times> int) list"

datatype draw =
    Background string int int
  | Avatar int int int
  | Handle string int int int string string
  | Track paint lineCap int int int real real real
  | ValueArc paint lineCap int int int real real real
  | Needle paint lineCap int real real real real

datatype layer = LBackground | LAvatar | LHandle | LTrack | LValueArc | LNeedle

fun layerOf :: "draw \<Rightarrow> layer" where
  "layerOf (Background f w h) = LBackground"
| "layerOf (Avatar x y sz) = LAvatar"
| "layerOf (Handle txt x y px face col) = LHandle"
| "layerOf (Track p c lw cx cy r a0 a1) = LTrack"
| "layerOf (ValueArc p c lw cx cy r a0 a1) = LValueArc"
| "layerOf (Needle p c lw x1 y1 x2 y2) = LNeedle"

definition C_RED :: paint where "C_RED = Rgb 217 83 79"
definition C_ORG :: paint where "C_ORG = Rgb 240 173 78"
definition C_GRN :: paint where "C_GRN = Rgb 92 184 92"

subsection \<open>Layers common to the backends\<close>

definition handleLayer :: "env \<Rightarrow> string \<Rightarrow> string \<Rightarrow> draw" where
  "handleLayer e txt face =
     Handle txt (intish (HANDLE_X e) 144) (intish (HANDLE_Y e) 48)
       (max 8 (intish (HANDLE_FONT_PX e) 36)) face
       (if HANDLE_COLOR e = [] then ''#ffffff'' else HANDLE_COLOR e)"

definition avatarLayer :: "env \<Rightarrow> draw" where
  "avatarLayer e =
     Avatar (intish (PFP_X e) 32) (intish (PFP_Y e) 32) (max 1 (intish (PFP_SIZE e) 96))"

definition trackLayer :: "rect \<Rightarrow> draw" where
  "trackLayer b =
     Track (Hex ''#090f00'') RoundCap (trackW (radius b)) (centerX b) (centerY b) (radius b)
       startAngle endAngle"

text \<open>The needle of the score \<^verbatim>\<open>s\<close>, rescaled by \<^verbatim>\<open>scale\<close>, of relative width
  \<^verbatim>\<open>widthFrac\<close>.\<close>

definition needleLayer :: "rect \<Rightarrow> real \<Rightarrow> real \<Rightarrow> real \<Rightarrow> draw" where
  "needleLayer b s scale widthFrac =
     (let r = radius b; a = thetaEnd s;
          r1 = needle_r1 r scale; r2 = needle_r2 r scale
      in Needle (Hex ''#e6e6e8'') RoundCap (needleWidth r widthFrac)
           (real_of_int (centerX b) + cos a * r1) (real_of_int (centerY b) + sin a * r1)
           (real_of_int (centerX b) + cos a * r2) (real_of_int (centerY b) + sin a * r2))"

subsection \<open>Value arc of the interactive canvas (conic gradient)\<close>

text \<open>\<^verbatim>\<open>drawValue(v)\<close> of the page script.\<close>

definition drawValue :: "rect \<Rightarrow> real \<Rightarrow> draw list" where
  "drawValue b v =
     (let r = radius b; vw = valueW r; cx = centerX b; cy = centerY b;
          te = thetaEnd v; cap = capAngle vw r
      in if te \<le> startAngle + cap
         then [ValueArc C_RED RoundCap vw cx cy r startAngle te]
         else [ValueArc C_RED RoundCap vw cx cy r startAngle (startAngle + cap),
               ValueArc (Conic (startAngle + cap + 1 / 10000) cx cy
                          [(0, 217, 83, 79), (1 / 2, 240, 173, 78), (1, 92, 184, 92)])
                 ButtCap vw cx cy r (startAngle + cap) te])"

subsection \<open>Value arc of the rasterizer (flat slices)\<close>

text \<open>\<^verbatim>\<open>gradStops\<close> and \<^verbatim>\<open>colAt\<close> of \<^verbatim>\<open>renderCardPNG\<close>.\<close>

type_synonym rgb = "real \<times> real \<times> real"

definition gradStop0 :: rgb where "gradStop0 = (217, 83, 79)"
definition gradStop1 :: rgb where "gradStop1 = (240, 173, 78)"
definition gradStop2 :: rgb where "gradStop2 = (92, 184, 92)"

fun blend :: "rgb \<Rightarrow> rgb \<Rightarrow> real \<Rightarrow> rgb" where
  "blend (r0, g0, b0) (r1, g1, b1) u =
     (r0 + (r1 - r0) * u, g0 + (g1 - g0) * u, b0 + (b1 - b0) * u)"

definition colAt :: "real \<Rightarrow> rgb" where
  "colAt t =
     (if t \<le> 1 / 2 then blend gradStop0 gradStop1 (t / (1 / 2))
      else blend gradStop1 gradStop2 ((t - 1 / 2) / (1 / 2)))"

text \<open>The stroke style that \<^verbatim>\<open>strokeArc(c1, c2, a0, a1)\<close> sets: the rounded mean of the
  two colours.\<close>

fun midColor :: "rgb \<Rightarrow> rgb \<Rightarrow> paint" where
  "midColor (r0, g0, b0) (r1, g1, b1) =
     Rgb (js_round ((r0 + r1) / 2)) (js_round ((g0 + g1) / 2)) (js_round ((b0 + b1) / 2))"

text \<open>A colour of the ramp with each channel rounded, as an \<^verbatim>\<open>rgb(r,g,b)\<close> stroke style.\<close>

fun roundRgb :: "rgb \<Rightarrow> paint" where
  "roundRgb (r, g, b) = Rgb (js_round r) (js_round g) (js_round b)"

definition segs :: nat where
  "segs = 24"

text \<open>
  The loop \<^verbatim>\<open>for (let i = 0; i < segs; i++)\<close> from the index \<^verbatim>\<open>i\<close> on, with its two
  \<^verbatim>\<open>break\<close>s: the strokes made, each as stroke style, start angle and end angle.
\<close>

function sliceLoop :: "real \<Rightarrow> real \<Rightarrow> real \<Rightarrow> nat \<Rightarrow> (paint \<times> real \<times> real) list" where
  "sliceLoop te usableStart spanAngle i =
     (if i < segs then
        (let t0 = real i / real segs;
             t1 = (real i + 1) / real segs;
             a0 = usableStart + t0 * spanAngle;
             a1 = usableStart + t1 * spanAngle
         in if a0 \<ge> te then []
            else (midColor (colAt t0) (colAt t1), a0, min a1 te)
                 # (if a1 \<ge> te then [] else sliceLoop te usableStart spanAngle (i + 1)))
      else [])"
  by pat_completeness auto
termination
  by (relation "measure (\<lambda>(te, usableStart, spanAngle, i). segs - i)") auto

declare sliceLoop.simps [simp del]

text \<open>The value arc of \<^verbatim>\<open>renderCardPNG\<close>: the cap segment, then the slices over
  \<^verbatim>\<open>span\<close> from \<^verbatim>\<open>usableStart\<close>. The line cap is the one set for the track; it is not
  set again.\<close>

definition usableStart :: "rect \<Rightarrow> real" where
  "usableStart b = startAngle + capAngle (valueW (radius b)) (radius b)"

definition arcSpan :: "rect \<Rightarrow> real" where
  "arcSpan b = (endAngle - startAngle) - capAngle (valueW (radius b)) (radius b)"

definition valueSlices :: "rect \<Rightarrow> real \<Rightarrow> (paint \<times> real \<times> real) list" where
  "valueSlices b s =
     (if thetaEnd s > startAngle + capAngle (valueW (radius b)) (radius b)
      then sliceLoop (thetaEnd s) (usableStart b) (arcSpan b) 0
      else [])"

definition valueArc_card :: "rect \<Rightarrow> real \<Rightarrow> draw list" where
  "valueArc_card b s =
     (let r = radius b; vw = valueW r; cx = centerX b; cy = centerY b;
          cap = capAngle vw r
      in ValueArc (Rgb 217 83 79) RoundCap vw cx cy r startAngle
           (min (thetaEnd s) (startAngle + cap))
         # map (\<lambda>(p, a0, a1). ValueArc p RoundCap vw cx cy r a0 a1) (valueSlices b s))"

subsection \<open>Assets\<close>

text \<open>
  What the file system and the network answer during one render: whether the background
  file of a name is readable (\<^verbatim>\<open>fileExists\<close>), the size of the image that
  \<^verbatim>\<open>loadImage\<close> decodes from it (\<open>None\<close> when it throws), and the outcome of fetching and
  decoding the avatar.
\<close>

datatype pfp_result = FetchThrows | FetchNotOk | DecodeThrows | PfpLoaded

record assets =
  bgExists :: "string \<Rightarrow> bool"
  bgLoad :: "string \<Rightarrow> (int \<times> int) option"
  pfpFetch :: pfp_result

datatype render_error = MissingBackgroundAsset string | LoadImageFailed string

subsection \<open>The rasterizer of \<^verbatim>\<open>api/index.mjs\<close>\<close>

text \<open>
  \<^verbatim>\<open>renderCardPNG({ score, username, pfpUrl })\<close>: the calls made on the surface that is
  encoded and returned, or the error thrown. \<^verbatim>\<open>score\<close> is a number (the caller has
  checked \<^verbatim>\<open>typeof rc.score\<close>).
\<close>

definition renderCardPNG :: "env \<Rightarrow> assets \<Rightarrow> real \<Rightarrow> string \<Rightarrow> string \<Rightarrow> render_error + draw list" where
  "renderCardPNG e a score username pfpUrl =
     (let s = clampScore score; file = bgFile s (thresholdsOf e)
      in if \<not> bgExists a file then Inl (MissingBackgroundAsset file)
         else case bgLoad a file of
           None \<Rightarrow> Inl (LoadImageFailed file)
         | Some (bw, bh) \<Rightarrow>
             (let width = (if bw = 0 then 1200 else bw);
                  height = (if bh = 0 then 628 else bh);
                  b = gaugeRect width height e
              in Inr ([Background file width height]
                      @ (if pfpUrl \<noteq> [] \<and> pfpFetch a = PfpLoaded then [avatarLayer e] else [])
                      @ [handleLayer e (if username \<noteq> [] then CHR ''@'' # username else [])
                           ''700 ManropeBold, system-ui, -apple-system, Segoe UI, Roboto, Helvetica, Arial, sans-serif'']
                      @ [trackLayer b]
                      @ valueArc_card b s
                      @ [needleLayer b s (needleScale e) (needleWidthFrac e)])))"

subsection \<open>The rasterizer of \<^verbatim>\<open>server.js\<close>\<close>

text \<open>The session cookie of \<^verbatim>\<open>server.js\<close>: \<^verbatim>\<open>lastScore\<close> is absent until \<^verbatim>\<open>/fetch\<close> has
  stored \<^verbatim>\<open>displayScore\<close>, which is \<^verbatim>\<open>null\<close> or an integer.\<close>

datatype stored_score = NotStored | StoredNull | Stored int

record session =
  username :: string
  profileImageUrl :: string
  lastScore :: stored_score

text \<open>\<^verbatim>\<open>const { lastScore = 50 } = sess\<close> (the default replaces \<^verbatim>\<open>undefined\<close> only), then
  \<^verbatim>\<open>Math.max(0, Math.min(100, Number(lastScore) || 0))\<close>.\<close>

fun scoreOfSession :: "stored_score \<Rightarrow> real" where
  "scoreOfSession NotStored = clampScore 50"
| "scoreOfSession StoredNull = clampScore 0"
| "scoreOfSession (Stored v) = clampScore (real_of_int v)"

definition renderGaugeBuffer :: "env \<Rightarrow> assets \<Rightarrow> session \<Rightarrow> render_error + draw list" where
  "renderGaugeBuffer e a sess =
     (let s = scoreOfSession (lastScore sess); file = bgFile s (thresholdsOf e)
      in case bgLoad a file of
           None \<Rightarrow> Inl (LoadImageFailed file)
         | Some (W, H) \<Rightarrow>
             Inr ([Background file W H]
                  @ (if profileImageUrl sess \<noteq> [] \<and> pfpFetch a = PfpLoaded then [avatarLayer e] else [])
                  @ [handleLayer e (CHR ''@'' # username sess) ''Manrope'']
                  @ [needleLayer (gaugeRect W H e) s (needleScale e) (needleWidthFrac e)]))"

subsection \<open>The interactive canvas\<close>

text \<open>
  The script of the page that the serverless \<^verbatim>\<open>handler\<close> sends, run in a browser where
  the background image has loaded with natural size \<^verbatim>\<open>W\<close> by \<^verbatim>\<open>H\<close>; \<^verbatim>\<open>pfpOk\<close> says that
  the avatar image has loaded with a non-zero size.
\<close>

definition canvasDraw :: "env \<Rightarrow> real \<Rightarrow> string \<Rightarrow> bool \<Rightarrow> int \<Rightarrow> int \<Rightarrow> bool \<Rightarrow> draw list" where
  "canvasDraw e score uname hasPfp W H pfpOk =
     (let v = clampScore score; file = bgFile v (thresholdsOf e); b = gaugeRect W H e
      in [Background file W H]
         @ (if hasPfp \<and> pfpOk then [avatarLayer e] else [])
         @ [handleLayer e (CHR ''@'' # uname) ''700 ManropeBold'']
         @ [trackLayer b]
         @ drawValue b v
         @ [needleLayer b v (needleScale e) (needleWidthFrac e)])"

text \<open>
  The script of the page that \<^verbatim>\<open>gaugeHtml\<close> of \<^verbatim>\<open>api/logout.js\<close> builds, run in a browser
  where the background image has loaded with natural size \<^verbatim>\<open>bw\<close> by \<^verbatim>\<open>bh\<close> (a zero size
  is replaced by 1200 and 628). The thresholds are the unchained ones, an empty
  \<^verbatim>\<open>HANDLE_COLOR\<close> becomes \<^verbatim>\<open>#fff\<close>, and \<^verbatim>\<open>drawNeedle\<close> reads
  \<^verbatim>\<open>Number(NEEDLE_LEN_SCALE) || 1\<close> and \<^verbatim>\<open>Number(NEEDLE_WIDTH_FRAC) || 0.025\<close>, not the
  clamped \<^verbatim>\<open>CFG.needleScale\<close> and \<^verbatim>\<open>CFG.needleWidthFrac\<close>.
\<close>

definition canvasDraw_gaugeHtml :: "env \<Rightarrow> real \<Rightarrow> string \<Rightarrow> bool \<Rightarrow> int \<Rightarrow> int \<Rightarrow> bool \<Rightarrow> draw list" where
  "canvasDraw_gaugeHtml e score uname pfpPresent bw bh pfpOk =
     (let s = clampScore score; file = bgFile s (thresholdsOf_gaugeHtml e);
          W = (if bw = 0 then 1200 else bw); H = (if bh = 0 then 628 else bh);
          b = gaugeRect W H e
      in [Background file W H]
         @ (if pfpPresent \<and> pfpOk then [avatarLayer e] else [])
         @ [Handle (CHR ''@'' # uname) (intish (HANDLE_X e) 144) (intish (HANDLE_Y e) 48)
              (max 8 (intish (HANDLE_FONT_PX e) 36)) ''700 ManropeBold''
              (if HANDLE_COLOR e = [] then ''#fff'' else HANDLE_COLOR e)]
         @ [trackLayer b]
         @ drawValue b s
         @ [needleLayer b s (orElse (NEEDLE_LEN_SCALE e) 1) (orElse (NEEDLE_WIDTH_FRAC e) (25 / 1000))])"

subsection \<open>Entry points\<close>

datatype response =
    GaugePage "draw list"
  | DebugPage
  | Redirect string
  | Png "draw list"
  | Status nat string

text \<open>The serverless \<^verbatim>\<open>handler\<close> after the webhook has answered: the gauge page only when
  \<^verbatim>\<open>displayScore !== null\<close>.\<close>

definition handler :: "env \<Rightarrow> json option \<Rightarrow> nat \<Rightarrow> string \<Rightarrow> bool \<Rightarrow> int \<Rightarrow> int \<Rightarrow> bool \<Rightarrow> response" where
  "handler e parsed sent uname hasPfp W H pfpOk =
     (case displayScore parsed sent of
        None \<Rightarrow> DebugPage
      | Some d \<Rightarrow> GaugePage (canvasDraw e (real_of_int d) uname hasPfp W H pfpOk))"

text \<open>\<^verbatim>\<open>/fetch\<close> of \<^verbatim>\<open>server.js\<close> after the webhook has answered: the session saved and the
  response.\<close>

definition fetch_server :: "json option \<Rightarrow> nat \<Rightarrow> session \<Rightarrow> session \<times> response" where
  "fetch_server parsed sent sess =
     (case displayScore_server parsed sent of
        None \<Rightarrow> (sess\<lparr>lastScore := StoredNull\<rparr>, DebugPage)
      | Some d \<Rightarrow> (sess\<lparr>lastScore := Stored d\<rparr>, Redirect ''/preview''))"

text \<open>\<^verbatim>\<open>/gauge\<close> of \<^verbatim>\<open>server.js\<close>.\<close>

definition gauge_server :: "env \<Rightarrow> assets \<Rightarrow> session \<Rightarrow> response" where
  "gauge_server e a sess =
     (if username sess = [] then Redirect ''/''
      else case renderGaugeBuffer e a sess of
             Inr ops \<Rightarrow> Png ops
           | Inl err \<Rightarrow> Status 500 ''Gauge render failed'')"

text \<open>\<^verbatim>\<open>/card.png\<close> of \<^verbatim>\<open>api/index.mjs\<close>: the render cookie is absent (\<open>None\<close>) or holds a
  score that is a number or not (\<open>None\<close>), a user name and an avatar address.\<close>

definition card_png :: "env \<Rightarrow> assets \<Rightarrow> (real option \<times> string \<times> string) option \<Rightarrow> response" where
  "card_png e a rc =
     (case rc of
        None \<Rightarrow> Status 400 ''Missing render context''
      | Some (None, uname, pfp) \<Rightarrow> Status 400 ''Missing render context''
      | Some (Some score, uname, pfp) \<Rightarrow>
          (case renderCardPNG e a score uname pfp of
             Inr ops \<Rightarrow> Png ops
           | Inl err \<Rightarrow> Status 500 ''Render failed''))"

section \<open>Example inputs\<close>

text \<open>A configuration whose first threshold is above the second, and one whose four
  insets are zero.\<close>

definition misorderedEnv :: env where
  "misorderedEnv = defaultEnv\<lparr>THRESH_SB := ''80''\<rparr>"

definition zeroInsets :: env where
  "zeroInsets = defaultEnv\<lparr>GAUGE_LEFT := ''0'', GAUGE_RIGHT := ''0'', GAUGE_TOP := ''0'', GAUGE_BOTTOM := ''0''\<rparr>"

text \<open>The drawable box of a 600 by 600 image with zero insets.\<close>

definition box600 :: rect where
  "box600 = gaugeRect 600 600 zeroInsets"

text \<open>The drawable box of the default configuration on the 1200 by 628 background.\<close>

abbreviation defaultBox :: rect where
  "defaultBox \<equiv> \<lparr>rect_x = 500, rect_y = 100, rect_w = 200, rect_h = 128\<rparr>"

text \<open>A session without a stored score, and two states of the assets: everything loads
  (the background is 1200 by 628), and no background file can be read.\<close>

definition alice :: session where
  "alice = \<lparr>username = ''alice'', profileImageUrl = [], lastScore = NotStored\<rparr>"

text \<open>A session with an avatar and the stored score 100, and a configuration whose needle
  scale is below the floor 0.1.\<close>

definition aliceFull :: session where
  "aliceFull = \<lparr>username = ''alice'', profileImageUrl = ''https://pbs.example/a.jpg'',
                 lastScore = Stored 100\<rparr>"

definition shortNeedle :: env where
  "shortNeedle = defaultEnv\<lparr>NEEDLE_LEN_SCALE := Some (1 / 20)\<rparr>"

definition allLoaded :: assets where
  "allLoaded = \<lparr>bgExists = (\<lambda>f. True), bgLoad = (\<lambda>f. Some (1200, 628)), pfpFetch = PfpLoaded\<rparr>"

definition noBackground :: assets where
  "noBackground = \<lparr>bgExists = (\<lambda>f. False), bgLoad = (\<lambda>f. None), pfpFetch = PfpLoaded\<rparr>"

section \<open>Properties\<close>

subsection \<open>Doubles\<close>

text \<open>The exponent found by the two searches is the binary exponent.\<close>

lemma up_spec: "2 ^ n \<le> x \<Longrightarrow> 2 ^ up x n \<le> x \<and> x < 2 ^ (up x n + 1)"
proof (induction x n rule: up.induct)
  case (1 x n)
  show ?case
  proof (cases "2 ^ (n + 1) \<le> x")
    case True
    then have "up x n = up x (n + 1)" by (subst up.simps) simp
    with "1.IH"[OF True True] show ?thesis by simp
  next
    case False
    then have "up x n = n" by (subst up.simps) simp
    with False "1.prems" show ?thesis by simp
  qed
qed

lemma down_spec:
  "0 < x \<Longrightarrow> x < (1 / 2) ^ n \<Longrightarrow>
   (1 / 2) ^ down x n \<le> x \<and> x < (1 / 2) ^ (down x n - 1) \<and> n < down x n"
proof (induction x n rule: down.induct)
  case (1 x n)
  from "1.prems" have g: "0 < x \<and> x < (1 / 2) ^ n" by simp
  then have step: "down x n = down x (n + 1)" by (subst down.simps) simp
  show ?case
  proof (cases "x < (1 / 2) ^ (n + 1)")
    case True
    from "1.IH"[OF g "1.prems"(1) True] step show ?thesis by simp
  next
    case False
    then have "down x (n + 1) = n + 1" by (subst down.simps) simp
    with step False "1.prems" show ?thesis by simp
  qed
qed

lemma expo_spec:
  assumes "0 < x"
  shows "2 powi expo x \<le> x \<and> x < 2 powi (expo x + 1)"
proof (cases "1 \<le> x")
  case True
  then have e: "expo x = int (up x 0)" by (simp add: expo_def)
  from True up_spec[of 0 x] have "2 ^ up x 0 \<le> x \<and> x < 2 ^ (up x 0 + 1)" by simp
  moreover have "2 powi (int (up x 0) + 1) = (2::real) ^ (up x 0 + 1)"
    using power_int_of_nat[of "2::real" "up x 0 + 1"] by (simp add: add.commute)
  ultimately show ?thesis by (simp add: e)
next
  case False
  then have e: "expo x = - int (down x 0)" by (simp add: expo_def)
  from False assms down_spec[of x 0]
  have d: "(1 / 2) ^ down x 0 \<le> x" "x < (1 / 2) ^ (down x 0 - 1)" "0 < down x 0" by simp_all
  have a: "2 powi (- int (down x 0)) = ((1::real) / 2) ^ down x 0"
    by (simp add: power_int_minus power_one_over inverse_eq_divide)
  have "- int (down x 0) + 1 = - int (down x 0 - 1)" using d(3) by simp
  then have b: "2 powi (- int (down x 0) + 1) = ((1::real) / 2) ^ (down x 0 - 1)"
    by (simp only: power_int_minus power_int_of_nat) (simp add: power_one_over inverse_eq_divide)
  from d a b show ?thesis by (simp add: e)
qed

lemma pow2_add: "(2::real) powi (a + b) = 2 powi a * 2 powi b"
  by (rule power_int_add) simp

lemma pow2_diff: "(2::real) powi (a - b) = 2 powi a / 2 powi b"
  by (rule power_int_diff) simp

lemma pow2_less_iff: "(2::real) powi a < 2 powi b \<longleftrightarrow> a < b"
proof
  assume l: "(2::real) powi a < 2 powi b"
  show "a < b"
  proof (rule ccontr)
    assume "\<not> a < b"
    then have "b \<le> a" by simp
    then have "(2::real) powi b \<le> 2 powi a" by (intro power_int_increasing) simp_all
    with l show False by simp
  qed
next
  assume "a < b"
  then show "(2::real) powi a < 2 powi b" by (intro power_int_strict_increasing) simp_all
qed

lemma pow2_le_iff: "(2::real) powi a \<le> 2 powi b \<longleftrightarrow> a \<le> b"
  using pow2_less_iff[of b a] by (simp add: not_less[symmetric])

lemma expo_unique:
  assumes "0 < x" "2 powi e \<le> x" "x < 2 powi (e + 1)"
  shows "expo x = e"
proof -
  from expo_spec[OF assms(1)] have s: "2 powi expo x \<le> x" "x < 2 powi (expo x + 1)" by simp_all
  from s(1) assms(3) have "(2::real) powi expo x < 2 powi (e + 1)" by linarith
  then have a: "expo x < e + 1" by (simp only: pow2_less_iff)
  from assms(2) s(2) have "(2::real) powi e < 2 powi (expo x + 1)" by linarith
  then have b: "e < expo x + 1" by (simp only: pow2_less_iff)
  from a b show ?thesis by simp
qed

text \<open>Rounding is monotone, odd, exact on the doubles and commutes with doubling.\<close>

lemma rhe_of_int [simp]: "rhe (of_int k) = k"
  by (simp add: rhe_def)

lemma rhe_floor: "\<lfloor>y\<rfloor> \<le> rhe y \<and> rhe y \<le> \<lfloor>y\<rfloor> + 1"
  by (simp add: rhe_def Let_def)

lemma rhe_mono: "y1 \<le> y2 \<Longrightarrow> rhe y1 \<le> rhe y2"
proof -
  assume le: "y1 \<le> y2"
  then have fl: "\<lfloor>y1\<rfloor> \<le> \<lfloor>y2\<rfloor>" by (rule floor_mono)
  show ?thesis
  proof (cases "\<lfloor>y1\<rfloor> = \<lfloor>y2\<rfloor>")
    case True
    with le show ?thesis by (auto simp: rhe_def Let_def)
  next
    case False
    with fl have "\<lfloor>y1\<rfloor> + 1 \<le> \<lfloor>y2\<rfloor>" by simp
    with rhe_floor[of y1] rhe_floor[of y2] show ?thesis by linarith
  qed
qed

lemma rhe_ge: "of_int a \<le> y \<Longrightarrow> a \<le> rhe y"
  using rhe_mono[of "of_int a" y] by simp

lemma rhe_le: "y \<le> of_int b \<Longrightarrow> rhe y \<le> b"
  using rhe_mono[of y "of_int b"] by simp

lemma rnd_0 [simp]: "rnd 0 = 0"
  by (simp add: rnd_def)

lemma rnd_minus: "rnd (- x) = - rnd x"
  by (simp add: rnd_def sgn_minus)

lemma rnd_eval:
  assumes "0 < x" "2 powi e \<le> x" "x < 2 powi (e + 1)"
  shows "rnd x = of_int (rhe (x / 2 powi (e - 52))) * 2 powi (e - 52)"
  using assms expo_unique[OF assms] by (simp add: rnd_def)

lemma rnd_pos_form:
  "0 < x \<Longrightarrow> rnd x = of_int (rhe (x / 2 powi (expo x - 52))) * 2 powi (expo x - 52)"
  by (simp add: rnd_def)

lemma rnd_pos_bounds:
  assumes "0 < x"
  shows "2 powi expo x \<le> rnd x \<and> rnd x \<le> 2 powi (expo x + 1)"
    and "of_int (2 ^ 52) \<le> rhe (x / 2 powi (expo x - 52))
         \<and> rhe (x / 2 powi (expo x - 52)) \<le> of_int (2 ^ 53)"
proof -
  define e where "e = expo x"
  define u :: real where "u = 2 powi (e - 52)"
  have upos: "0 < u" by (simp add: u_def)
  from expo_spec[OF assms] have s: "2 powi e \<le> x" "x < 2 powi (e + 1)" by (simp_all add: e_def)
  have "e = 52 + (e - 52)" by simp
  then have "2 powi e = (2::real) powi (52 + (e - 52))" by (rule arg_cong)
  also have "\<dots> = 2 powi 52 * 2 powi (e - 52)" by (rule pow2_add)
  finally have lo: "2 powi e = (2::real) ^ 52 * u" by (simp add: u_def)
  have "e + 1 = 53 + (e - 52)" by simp
  then have "2 powi (e + 1) = (2::real) powi (53 + (e - 52))" by (rule arg_cong)
  also have "\<dots> = 2 powi 53 * 2 powi (e - 52)" by (rule pow2_add)
  finally have hi: "2 powi (e + 1) = (2::real) ^ 53 * u" by (simp add: u_def)
  from s(1) lo upos have "(2::real) ^ 52 \<le> x / u" by (simp add: field_simps)
  then have "real_of_int (2 ^ 52) \<le> x / u" by simp
  then have a: "2 ^ 52 \<le> rhe (x / u)" by (rule rhe_ge)
  from s(2) hi upos have "x / u \<le> (2::real) ^ 53" by (simp add: field_simps)
  then have "x / u \<le> real_of_int (2 ^ 53)" by simp
  then have b: "rhe (x / u) \<le> 2 ^ 53" by (rule rhe_le)
  from a b show "of_int (2 ^ 52) \<le> rhe (x / 2 powi (expo x - 52))
         \<and> rhe (x / 2 powi (expo x - 52)) \<le> of_int (2 ^ 53)"
    by (simp add: u_def e_def)
  have r: "rnd x = of_int (rhe (x / u)) * u" using rnd_pos_form[OF assms] by (simp add: u_def e_def)
  from a have "real_of_int (2 ^ 52) \<le> real_of_int (rhe (x / u))" by (simp only: of_int_le_iff)
  with upos have a': "(2::real) ^ 52 * u \<le> of_int (rhe (x / u)) * u" by simp
  from b have "real_of_int (rhe (x / u)) \<le> real_of_int (2 ^ 53)" by (simp only: of_int_le_iff)
  with upos have b': "of_int (rhe (x / u)) * u \<le> (2::real) ^ 53 * u" by simp
  from a' b' r lo hi show "2 powi expo x \<le> rnd x \<and> rnd x \<le> 2 powi (expo x + 1)"
    by (simp add: e_def)
qed

lemma rnd_pos: "0 < x \<Longrightarrow> 0 < rnd x"
proof -
  assume "0 < x"
  from rnd_pos_bounds(1)[OF this] have "2 powi expo x \<le> rnd x" by simp
  moreover have "(0::real) < 2 powi expo x" by simp
  ultimately show ?thesis by linarith
qed




lemma rnd_exact_pos:
  assumes x: "x = of_int k * 2 powi j" and k: "0 < k" "k \<le> 2 ^ 53"
  shows "rnd x = x"
proof -
  have xpos: "0 < x" using k by (simp add: x)
  define e where "e = expo x"
  from expo_spec[OF xpos] have s: "2 powi e \<le> x" "x < 2 powi (e + 1)" by (simp_all add: e_def)
  have "real_of_int k \<le> real_of_int (2 ^ 53)" using k(2) by (simp only: of_int_le_iff)
  then have "real_of_int k \<le> 2 ^ 53" by simp
  then have "x \<le> 2 ^ 53 * 2 powi j" by (simp add: x mult_right_mono)
  also have "\<dots> = 2 powi 53 * 2 powi j" by simp
  also have "\<dots> = 2 powi (53 + j)" by (rule pow2_add[symmetric])
  also have "53 + j = j + 53" by simp
  finally have xle: "x \<le> 2 powi (j + 53)" .
  with s(1) have "(2::real) powi e \<le> 2 powi (j + 53)" by linarith
  then have ele: "e \<le> j + 53" by (simp only: pow2_le_iff)
  have form: "rnd x = of_int (rhe (x / 2 powi (e - 52))) * 2 powi (e - 52)"
    using rnd_pos_form[OF xpos] by (simp add: e_def)
  show ?thesis
  proof (cases "e = j + 53")
    case True
    with s(1) xle have xeq: "x = 2 powi (j + 53)" by simp
    have "x / 2 powi (e - 52) = 2 powi ((j + 53) - (e - 52))"
      unfolding xeq by (rule pow2_diff[symmetric])
    also have "(j + 53) - (e - 52) = 52" using True by simp
    also have "(2::real) powi 52 = real_of_int (2 ^ 52)" by simp
    finally have "rhe (x / 2 powi (e - 52)) = 2 ^ 52" by (simp only: rhe_of_int)
    then have "rnd x = 2 powi 52 * 2 powi (e - 52)" using form by simp
    also have "\<dots> = 2 powi (52 + (e - 52))" by (rule pow2_add[symmetric])
    also have "52 + (e - 52) = j + 53" using True by simp
    finally show ?thesis using xeq by simp
  next
    case False
    with ele have d: "0 \<le> j - e + 52" by simp
    define n where "n = nat (j - e + 52)"
    have jd: "j - (e - 52) = int n" and je: "int n + (e - 52) = j" using d by (simp_all add: n_def)
    have "x / 2 powi (e - 52) = of_int k * (2 powi j / 2 powi (e - 52))"
      by (simp add: x)
    also have "2 powi j / 2 powi (e - 52) = (2::real) powi (j - (e - 52))" by (rule pow2_diff[symmetric])
    also have "\<dots> = 2 ^ n" by (simp only: jd power_int_of_nat)
    also have "real_of_int k * 2 ^ n = real_of_int (k * 2 ^ n)" by simp
    finally have "rhe (x / 2 powi (e - 52)) = k * 2 ^ n" by (simp only: rhe_of_int)
    then have "rnd x = of_int k * (2 powi int n * 2 powi (e - 52))"
      using form by simp
    also have "2 powi int n * 2 powi (e - 52) = (2::real) powi (int n + (e - 52))"
      by (rule pow2_add[symmetric])
    also have "\<dots> = 2 powi j" by (simp only: je)
    finally show ?thesis by (simp add: x)
  qed
qed

lemma rnd_exact:
  assumes x: "x = of_int k * 2 powi j" and k: "\<bar>k\<bar> \<le> 2 ^ 53"
  shows "rnd x = x"
proof -
  consider "0 < k" | "k = 0" | "k < 0" by linarith
  then show ?thesis
  proof cases
    case 1
    with k show ?thesis by (intro rnd_exact_pos[OF x]) simp_all
  next
    case 2
    then show ?thesis by (simp add: x)
  next
    case 3
    have "- x = of_int (- k) * 2 powi j" by (simp add: x)
    from rnd_exact_pos[OF this] 3 k have "rnd (- x) = - x" by simp
    then show ?thesis by (simp add: rnd_minus)
  qed
qed

lemma rnd_of_int: "\<bar>k\<bar> \<le> 2 ^ 53 \<Longrightarrow> rnd (of_int k) = of_int k"
  using rnd_exact[of "of_int k" k 0] by simp



lemma rnd_values: "rnd 1 = 1" "rnd 100 = 100" "rnd 50 = 50" "rnd (1 / 2) = 1 / 2"
  using rnd_exact[of 1 1 0] rnd_exact[of 100 100 0] rnd_exact[of 50 50 0] rnd_exact[of "1 / 2" 1 "- 1"]
  by (simp_all add: power_int_minus)


lemma rnd_sgn: "sgn (rnd x) = sgn x"
proof -
  consider "0 < x" | "x = 0" | "x < 0" by linarith
  then show ?thesis
  proof cases
    case 1
    from rnd_pos[OF 1] 1 show ?thesis by simp
  next
    case 2 then show ?thesis by simp
  next
    case 3
    then have "0 < - x" by simp
    from rnd_pos[OF this] have "rnd x < 0" by (simp add: rnd_minus)
    with 3 show ?thesis by simp
  qed
qed

subsection \<open>ScoreAggregator\<close>

















text \<open>Doubles met in the examples: small integers are doubles, 23/40 and its product by 100
  are not.\<close>

lemma rnd_numeral: "numeral n \<le> (2::int) ^ 53 \<Longrightarrow> rnd (numeral n) = numeral n"
  using rnd_of_int[of "numeral n"] by simp

lemma rnd_neg_numeral: "numeral n \<le> (2::int) ^ 53 \<Longrightarrow> rnd (- numeral n) = - numeral n"
  using rnd_numeral[of n] by (simp add: rnd_minus)

lemma rnd_neg_one: "rnd (- 1) = - 1"
  by (simp add: rnd_minus rnd_values)

lemmas double_eval = fsum_def fadd_def fsub_def fmul_def fdiv_def rnd_numeral rnd_neg_numeral
  rnd_neg_one rnd_values





subsection \<open>RenderConfig and StateClassifier\<close>

lemmas intish_eval = intish_def isDigit_def digitsValue_def isFinite_def

lemma thresholdsOf_ordered: "ordered (thresholdsOf e)"
  by (simp add: ordered_def thresholdsOf_def Let_def)

lemma thresholdsOf_default: "thresholdsOf defaultEnv = \<lparr>tSB = 20, tB = 40, tN = 60, tBU = 80\<rparr>"
  by (simp add: thresholdsOf_def defaultEnv_def intish_eval)

text \<open>
  C4. The thresholds built by \<^verbatim>\<open>renderGaugeBuffer\<close>, \<^verbatim>\<open>renderCardPNG\<close> and the
  serverless \<^verbatim>\<open>handler\<close> are ordered for every configuration (\<open>thresholdsOf_ordered\<close>).
  The \<^verbatim>\<open>/fetch\<close> branch of \<^verbatim>\<open>api/logout.js\<close> clamps each threshold to \<open>[0, 100]\<close> only:
  with \<^verbatim>\<open>THRESH_SB = "80"\<close> and the other defaults it builds 80, 40, 60, 80, which is not
  ordered, where the other sites build 80, 80, 80, 80.
\<close>

theorem C4_gaugeHtml_thresholds_unordered:
  "thresholdsOf_gaugeHtml misorderedEnv = \<lparr>tSB = 80, tB = 40, tN = 60, tBU = 80\<rparr>
   \<and> \<not> ordered (thresholdsOf_gaugeHtml misorderedEnv)
   \<and> thresholdsOf misorderedEnv = \<lparr>tSB = 80, tB = 80, tN = 80, tBU = 80\<rparr>
   \<and> ordered (thresholdsOf misorderedEnv)"
  by (simp add: thresholdsOf_gaugeHtml_def thresholdsOf_def misorderedEnv_def defaultEnv_def
      intish_eval ordered_def)

lemma asset_inj: "inj asset"
proof (rule injI)
  fix a b assume "asset a = asset b"
  then show "a = b" by (cases a; cases b) simp_all
qed

text \<open>
  C5. For a score \<open>s\<close> in \<open>[0, 100]\<close> and thresholds \<open>t1 \<le> t2 \<le> t3 \<le> t4\<close> the selection chain
  picks the background asset of exactly one state, the one of the half-open partition
  \<open>[0,t1)\<close>, \<open>[t1,t2)\<close>, \<open>[t2,t3)\<close>, \<open>[t3,t4)\<close>, \<open>[t4,100]\<close>. With the default thresholds
  20/40/60/80 the scores 0, 20 and 100 give StronglyBearish, Bearish and StronglyBullish.
\<close>

theorem C5_classifier:
  assumes "0 \<le> s" "s \<le> 100" "tSB t \<le> tB t" "tB t \<le> tN t" "tN t \<le> tBU t"
  shows "bgFile s t = asset (classify_spec s t)
       \<and> (s < real_of_int (tSB t) \<longrightarrow> bgFile s t = ''strongly-bearish.png'')
       \<and> (real_of_int (tSB t) \<le> s \<and> s < real_of_int (tB t) \<longrightarrow> bgFile s t = ''bearish.png'')
       \<and> (real_of_int (tB t) \<le> s \<and> s < real_of_int (tN t) \<longrightarrow> bgFile s t = ''neutral.png'')
       \<and> (real_of_int (tN t) \<le> s \<and> s < real_of_int (tBU t) \<longrightarrow> bgFile s t = ''bullish.png'')
       \<and> (real_of_int (tBU t) \<le> s \<longrightarrow> bgFile s t = ''strongly-bullish.png'')
       \<and> (\<forall>st. bgFile s t = asset st \<longleftrightarrow> st = classify_spec s t)"
proof -
  have ord: "real_of_int (tSB t) \<le> real_of_int (tB t)" "real_of_int (tB t) \<le> real_of_int (tN t)"
    "real_of_int (tN t) \<le> real_of_int (tBU t)"
    using assms by simp_all
  have eq: "bgFile s t = asset (classify_spec s t)"
    using ord by (auto simp: bgFile_def classify_spec_def)
  have uniq: "\<forall>st. bgFile s t = asset st \<longleftrightarrow> st = classify_spec s t"
    using eq asset_inj by (auto dest: injD)
  have bands: "(s < real_of_int (tSB t) \<longrightarrow> bgFile s t = ''strongly-bearish.png'')
       \<and> (real_of_int (tSB t) \<le> s \<and> s < real_of_int (tB t) \<longrightarrow> bgFile s t = ''bearish.png'')
       \<and> (real_of_int (tB t) \<le> s \<and> s < real_of_int (tN t) \<longrightarrow> bgFile s t = ''neutral.png'')
       \<and> (real_of_int (tN t) \<le> s \<and> s < real_of_int (tBU t) \<longrightarrow> bgFile s t = ''bullish.png'')
       \<and> (real_of_int (tBU t) \<le> s \<longrightarrow> bgFile s t = ''strongly-bullish.png'')"
    using ord by (auto simp: bgFile_def)
  from eq bands uniq show ?thesis by blast
qed

theorem C5_classifier_witness:
  "bgFile 0 (thresholdsOf defaultEnv) = ''strongly-bearish.png''
   \<and> bgFile 20 (thresholdsOf defaultEnv) = ''bearish.png''
   \<and> bgFile 100 (thresholdsOf defaultEnv) = ''strongly-bullish.png''
   \<and> classify_spec 0 (thresholdsOf defaultEnv) = StronglyBearish
   \<and> classify_spec 20 (thresholdsOf defaultEnv) = Bearish
   \<and> classify_spec 100 (thresholdsOf defaultEnv) = StronglyBullish"
  using C5_classifier[of 0 "thresholdsOf defaultEnv"] C5_classifier[of 20 "thresholdsOf defaultEnv"]
    C5_classifier[of 100 "thresholdsOf defaultEnv"]
  by (simp add: thresholdsOf_default classify_spec_def)

subsection \<open>GaugeGeometry\<close>

lemma radius_ge_1: "1 \<le> radius b"
  by (simp add: radius_def)

lemma needleScale_ge: "1 / 10 \<le> needleScale e"
  by (simp add: needleScale_def)

text \<open>
  C7. For a radius \<open>r \<ge> 1\<close> and a length scale \<open>k \<ge> 0.1\<close> (both hold by construction:
  \<open>radius_ge_1\<close>, \<open>needleScale_ge\<close>), rescaling the default needle radii
  \<open>r1d = r - max 10 (round (0.30 r))\<close> and \<open>r2d = r + max 8 (round (0.05 r))\<close> keeps the
  midpoint and multiplies the length by \<open>k\<close>; scale 1 gives the default radii back and
  scale 2 doubles the length around the same midpoint.
\<close>

theorem C7_needle_rescale:
  assumes "1 \<le> r" "1 / 10 \<le> k"
  shows "needle_r1d r = r - real_of_int (max 10 (js_round (r * (30 / 100))))
       \<and> needle_r2d r = r + real_of_int (max 8 (js_round (r * (5 / 100))))
       \<and> (needle_r1 r k + needle_r2 r k) / 2 = (needle_r1d r + needle_r2d r) / 2
       \<and> needle_r2 r k - needle_r1 r k = k * (needle_r2d r - needle_r1d r)
       \<and> needle_r1 r 1 = needle_r1d r \<and> needle_r2 r 1 = needle_r2d r
       \<and> needle_r2 r 2 - needle_r1 r 2 = 2 * (needle_r2d r - needle_r1d r)
       \<and> (needle_r1 r 2 + needle_r2 r 2) / 2 = (needle_r1d r + needle_r2d r) / 2"
  by (simp add: needle_r1_def needle_r2_def needle_mid_def needle_halfNew_def needle_half_def
      needle_r1d_def needle_r2d_def field_simps)

theorem C7_needle_rescale_witness:
  "(1::real) \<le> 300 \<and> (1::real) / 10 \<le> 2
   \<and> needle_r1d 300 = 210 \<and> needle_r2d 300 = 315
   \<and> needle_r1 300 2 = 315 / 2 \<and> needle_r2 300 2 = 735 / 2
   \<and> needle_r2 300 2 - needle_r1 300 2 = 2 * (315 - 210)
   \<and> (needle_r1 300 2 + needle_r2 300 2) / 2 = (210 + 315) / 2"
proof -
  have d: "needle_r1d 300 = 210" "needle_r2d 300 = 315"
    by (simp_all add: needle_r1d_def needle_r2d_def js_round_def)
  have v: "needle_r1 300 2 = 315 / 2" "needle_r2 300 2 = 735 / 2"
    by (simp_all add: needle_r1_def needle_r2_def needle_mid_def needle_halfNew_def
        needle_half_def d)
  from C7_needle_rescale[of 300 2] d v show ?thesis by simp
qed


lemma js_round_half: "js_round (real_of_int a + real_of_int w / 2) = a + (w + 1) div 2"
proof -
  have "real_of_int a + real_of_int w / 2 + 1 / 2
        = real_of_int a + real_of_int (w + 1) / real_of_int 2"
    by (simp add: field_simps)
  also have "\<lfloor>\<dots>\<rfloor> = a + \<lfloor>real_of_int (w + 1) / real_of_int 2\<rfloor>"
    by (simp only: int_add_floor)
  also have "\<dots> = a + (w + 1) div 2"
    by (simp only: floor_divide_of_int_eq)
  finally show ?thesis by (simp add: js_round_def)
qed

lemma js_round_of_int: "js_round (real_of_int a + real_of_int b) = a + b"
proof -
  have "\<lfloor>real_of_int (a + b) + 1 / 2\<rfloor> = a + b" by (simp add: floor_unique)
  then show ?thesis by (simp add: js_round_def)
qed

lemma zeroInsets_rect: "gaugeRect W H zeroInsets = \<lparr>rect_x = 0, rect_y = 0, rect_w = max 0 W, rect_h = max 0 H\<rparr>"
  by (simp add: gaugeRect_def zeroInsets_def defaultEnv_def intish_eval)

text \<open>
  C8, as stated, fails on the centre: \<^verbatim>\<open>cx\<close> is rounded. For an image 601 wide with zero
  insets the box is 601 wide, \<open>x + w / 2 = 300.5\<close> and \<^verbatim>\<open>cx = 301\<close>.
\<close>

theorem C8_center_counterexample:
  "real_of_int (centerX (gaugeRect 601 600 zeroInsets))
     \<noteq> real_of_int (rect_x (gaugeRect 601 600 zeroInsets))
       + real_of_int (rect_w (gaugeRect 601 600 zeroInsets)) / 2"
  by (simp add: zeroInsets_rect centerX_def js_round_def)

text \<open>
  C8, amended. The drawable box is \<open>x = left\<close>, \<open>y = top\<close>, \<open>w = max 0 (W - left - right)\<close>,
  \<open>h = max 0 (H - top - bottom)\<close>. The centre is \<open>cx = Math.round (x + w / 2)\<close>, that is
  \<open>x + (w + 1) div 2\<close>, equal to \<open>x + w / 2\<close> when \<open>w\<close> is even, and \<open>cy = y + h\<close>; the
  radius is \<open>max 1 (min (w / 2) h)\<close>. A 600 by 600 image with zero insets has radius 300.
\<close>

theorem C8_geometry:
  "rect_x (gaugeRect W H e) = intish (GAUGE_LEFT e) 0
   \<and> rect_y (gaugeRect W H e) = intish (GAUGE_TOP e) 0
   \<and> rect_w (gaugeRect W H e) = max 0 (W - intish (GAUGE_LEFT e) 0 - intish (GAUGE_RIGHT e) 0)
   \<and> rect_h (gaugeRect W H e) = max 0 (H - intish (GAUGE_TOP e) 0 - intish (GAUGE_BOTTOM e) 0)
   \<and> centerX b = \<lfloor>real_of_int (rect_x b) + real_of_int (rect_w b) / 2 + 1 / 2\<rfloor>
   \<and> centerX b = rect_x b + (rect_w b + 1) div 2
   \<and> (even (rect_w b) \<longrightarrow> real_of_int (centerX b) = real_of_int (rect_x b) + real_of_int (rect_w b) / 2)
   \<and> centerY b = rect_y b + rect_h b
   \<and> radius b = max 1 (min (real_of_int (rect_w b) / 2) (real_of_int (rect_h b)))
   \<and> radius (gaugeRect 600 600 zeroInsets) = 300"
proof -
  have box: "rect_x (gaugeRect W H e) = intish (GAUGE_LEFT e) 0
   \<and> rect_y (gaugeRect W H e) = intish (GAUGE_TOP e) 0
   \<and> rect_w (gaugeRect W H e) = max 0 (W - intish (GAUGE_LEFT e) 0 - intish (GAUGE_RIGHT e) 0)
   \<and> rect_h (gaugeRect W H e) = max 0 (H - intish (GAUGE_TOP e) 0 - intish (GAUGE_BOTTOM e) 0)"
    by (simp add: gaugeRect_def)
  have cx1: "centerX b = \<lfloor>real_of_int (rect_x b) + real_of_int (rect_w b) / 2 + 1 / 2\<rfloor>"
    by (simp add: centerX_def js_round_def)
  have cx2: "centerX b = rect_x b + (rect_w b + 1) div 2"
    unfolding centerX_def by (rule js_round_half)
  have cx3: "even (rect_w b) \<longrightarrow>
      real_of_int (centerX b) = real_of_int (rect_x b) + real_of_int (rect_w b) / 2"
  proof
    assume "even (rect_w b)"
    then obtain k where k: "rect_w b = 2 * k" by (auto elim: evenE)
    have "(2 * k + 1) div 2 = k" by simp
    with cx2 k show "real_of_int (centerX b) = real_of_int (rect_x b) + real_of_int (rect_w b) / 2"
      by simp
  qed
  have cy: "centerY b = rect_y b + rect_h b"
    unfolding centerY_def by (rule js_round_of_int)
  have r: "radius b = max 1 (min (real_of_int (rect_w b) / 2) (real_of_int (rect_h b)))"
    by (simp add: radius_def)
  have r600: "radius (gaugeRect 600 600 zeroInsets) = 300"
    by (simp add: zeroInsets_rect radius_def)
  from box cx1 cx2 cx3 cy r r600 show ?thesis by blast
qed

theorem C8_geometry_witness:
  "even (rect_w (gaugeRect 600 600 zeroInsets))
   \<and> centerX (gaugeRect 600 600 zeroInsets) = 300
   \<and> centerY (gaugeRect 600 600 zeroInsets) = 600
   \<and> radius (gaugeRect 600 600 zeroInsets) = 300"
  using C8_geometry[of 600 600 zeroInsets "gaugeRect 600 600 zeroInsets"]
  by (simp add: zeroInsets_rect)

subsection \<open>Negative tally members\<close>

text \<open>Cancelling and fractional doubles met in the examples.\<close>

lemma rnd_3_2: "rnd (3 / 2) = 3 / 2"
  using rnd_exact[of "3 / 2" 3 "- 1"] by (simp add: power_int_minus)

lemma rnd_m1_4: "rnd (- (1 / 4)) = - (1 / 4)"
  using rnd_exact[of "1 / 4" 1 "- 2"] by (simp add: power_int_minus rnd_minus)

lemma rnd_7_10: "rnd (7 / 10) = 3152519739159347 / 4503599627370496"
  using rnd_eval[of "7 / 10" "- 1"] by (simp add: rhe_def power_int_minus)

lemma rnd_70: "rnd (78812993478983675 / 1125899906842624) = 70"
  using rnd_eval[of "78812993478983675 / 1125899906842624" 6]
  by (simp add: rhe_def power_int_minus)

text \<open>
  C10. A tally member is added to its sum whatever its sign: the double read from the
  member has the sign of the number and is assigned, or added in doubles, as it is. So
  the score can leave \<open>[0, 100]\<close> before rendering: the tally Positive 3, Negative -1
  scores 150 and the tally Neutral -1, Negative 3 scores -25; the renderers clamp them to
  100 and 0. A tally whose members cancel (Positive 1, Negative -1) has \<open>T = 0\<close> and is
  scored with the number of posts sent as denominator: with 5 posts the score is 70.
\<close>

theorem C10_negative_fields:
  "tallySums (JObj [(''Positive'', JNum p), (''Neutral'', JNum u), (''Negative'', JNum g)])
     = \<lparr>sumP = rnd p, sumNeut = rnd u, sumNeg = rnd g\<rparr>
   \<and> addTally acc (JObj [(''Positive'', JNum p), (''Neutral'', JNum u), (''Negative'', JNum g)])
     = \<lparr>sumP = fadd (sumP acc) (rnd p), sumNeut = fadd (sumNeut acc) (rnd u),
        sumNeg = fadd (sumNeg acc) (rnd g)\<rparr>
   \<and> sgn (rnd p) = sgn p \<and> sgn (rnd u) = sgn u \<and> sgn (rnd g) = sgn g
   \<and> tallySums (JArr [JObj [(''Positive'', JNum 3), (''Negative'', JNum (- 1))]])
     = \<lparr>sumP = 3, sumNeut = 0, sumNeg = - 1\<rparr>
   \<and> displayScore (Some (JArr [JObj [(''Positive'', JNum 3), (''Negative'', JNum (- 1))]])) 0 = Some 150
   \<and> clampScore (real_of_int 150) = 100
   \<and> displayScore (Some (JObj [(''Neutral'', JNum (- 1)), (''Negative'', JNum 3)])) 0 = Some (- 25)
   \<and> clampScore (real_of_int (- 25)) = 0
   \<and> tallySums (JObj [(''Positive'', JNum 1), (''Negative'', JNum (- 1))])
     = \<lparr>sumP = 1, sumNeut = 0, sumNeg = - 1\<rparr>
   \<and> denominator (tallySums (JObj [(''Positive'', JNum 1), (''Negative'', JNum (- 1))])) 5 = 5
   \<and> displayScore (Some (JObj [(''Positive'', JNum 1), (''Negative'', JNum (- 1))])) 5 = Some 70
   \<and> displayScore_server (Some (JObj [(''Positive'', JNum 1), (''Negative'', JNum (- 1))])) 5 = Some 70"
proof -
  have gen: "tallySums (JObj [(''Positive'', JNum p), (''Neutral'', JNum u), (''Negative'', JNum g)])
     = \<lparr>sumP = rnd p, sumNeut = rnd u, sumNeg = rnd g\<rparr>"
    "addTally acc (JObj [(''Positive'', JNum p), (''Neutral'', JNum u), (''Negative'', JNum g)])
     = \<lparr>sumP = fadd (sumP acc) (rnd p), sumNeut = fadd (sumNeut acc) (rnd u),
        sumNeg = fadd (sumNeg acc) (rnd g)\<rparr>"
    by (simp_all add: setTally_def addTally_def numberMember_def)
  have s1: "tallySums (JArr [JObj [(''Positive'', JNum 3), (''Negative'', JNum (- 1))]])
     = \<lparr>sumP = 3, sumNeut = 0, sumNeg = - 1\<rparr>"
    by (simp add: addTally_def numberMember_def zeroSums_def double_eval)
  have "scoreOf \<lparr>sumP = 3, sumNeut = 0, sumNeg = - 1\<rparr> 0 = Some 150"
    by (simp add: scoreOf_def denominator_def double_eval rnd_3_2 js_round_def)
  then have d1: "displayScore (Some (JArr [JObj [(''Positive'', JNum 3), (''Negative'', JNum (- 1))]])) 0
      = Some 150"
    unfolding displayScore_def by (simp only: option.case s1)
  have s2: "tallySums (JObj [(''Neutral'', JNum (- 1)), (''Negative'', JNum 3)])
     = \<lparr>sumP = 0, sumNeut = - 1, sumNeg = 3\<rparr>"
    by (simp add: setTally_def numberMember_def double_eval)
  have "scoreOf \<lparr>sumP = 0, sumNeut = - 1, sumNeg = 3\<rparr> 0 = Some (- 25)"
    by (simp add: scoreOf_def denominator_def double_eval rnd_m1_4 js_round_def)
  then have d2: "displayScore (Some (JObj [(''Neutral'', JNum (- 1)), (''Negative'', JNum 3)])) 0
      = Some (- 25)"
    unfolding displayScore_def by (simp only: option.case s2)
  have s3: "tallySums (JObj [(''Positive'', JNum 1), (''Negative'', JNum (- 1))])
     = \<lparr>sumP = 1, sumNeut = 0, sumNeg = - 1\<rparr>"
    by (simp add: setTally_def numberMember_def double_eval)
  have den: "denominator \<lparr>sumP = 1, sumNeut = 0, sumNeg = - 1\<rparr> 5 = 5"
    by (simp add: denominator_def double_eval)
  have "fmul (fdiv (fadd (fsub 1 (- 1)) 5) (fmul 2 5)) 100 = 70"
    by (simp add: double_eval rnd_7_10 rnd_70)
  then have "scoreOf \<lparr>sumP = 1, sumNeut = 0, sumNeg = - 1\<rparr> 5 = Some 70"
    unfolding scoreOf_def den Let_def by (simp add: js_round_def)
  then have d3: "displayScore (Some (JObj [(''Positive'', JNum 1), (''Negative'', JNum (- 1))])) 5 = Some 70"
    "displayScore_server (Some (JObj [(''Positive'', JNum 1), (''Negative'', JNum (- 1))])) 5 = Some 70"
    unfolding displayScore_def displayScore_server_def
    by (simp_all only: option.case s3 tallySums_server.simps s3[simplified tallySums.simps])
  have cl: "clampScore (real_of_int 150) = 100" "clampScore (real_of_int (- 25)) = 0"
    by (simp_all add: clampScore_def)
  from gen rnd_sgn[of p] rnd_sgn[of u] rnd_sgn[of g] s1 d1 s2 d2 s3 d3 cl den show ?thesis
    by (simp only: s3; simp)
qed

subsection \<open>No score, and assets that fail to load\<close>

text \<open>When the sums cancel or are absent the number of posts sent is the denominator, and
  with no post sent there is no score: the serverless \<^verbatim>\<open>handler\<close> sends the debug page.\<close>

lemma denominator_fallback:
  "fadd (fadd (sumP t) (sumNeut t)) (sumNeg t) = 0 \<Longrightarrow> denominator t sent = real sent"
  by (simp add: denominator_def)

lemma no_score:
  "fadd (fadd (sumP t) (sumNeut t)) (sumNeg t) = 0 \<Longrightarrow> scoreOf t 0 = None"
  by (simp add: scoreOf_def denominator_def)

lemma handler_no_score:
  "displayScore parsed sent = None \<Longrightarrow> handler e parsed sent uname hasPfp W H pfpOk = DebugPage"
  by (simp add: handler_def)

lemma defaultEnv_rect:
  "gaugeRect 1200 628 defaultEnv = \<lparr>rect_x = 500, rect_y = 100, rect_w = 200, rect_h = 128\<rparr>"
  by (simp add: gaugeRect_def defaultEnv_def intish_eval)

lemma defaultEnv_handle:
  "handleLayer defaultEnv txt face = Handle txt 300 200 70 face ''#ffffff''"
  by (simp add: handleLayer_def defaultEnv_def intish_eval)

lemma defaultEnv_needle: "needleScale defaultEnv = 1" "needleWidthFrac defaultEnv = 25 / 1000"
  by (simp_all add: needleScale_def needleWidthFrac_def orElse_def defaultEnv_def)

lemma needle_at_zero:
  "needleLayer \<lparr>rect_x = 500, rect_y = 100, rect_w = 200, rect_h = 128\<rparr> 0 1 (1 / 40)
     = Needle (Hex ''#e6e6e8'') RoundCap 3 530 228 492 228"
proof -
  have r: "radius \<lparr>rect_x = 500, rect_y = 100, rect_w = 200, rect_h = 128\<rparr> = 100"
    by (simp add: radius_def)
  have c: "centerX \<lparr>rect_x = 500, rect_y = 100, rect_w = 200, rect_h = 128\<rparr> = 600"
    "centerY \<lparr>rect_x = 500, rect_y = 100, rect_w = 200, rect_h = 128\<rparr> = 228"
    by (simp_all add: centerX_def centerY_def js_round_def)
  have n: "needle_r1 100 1 = 70" "needle_r2 100 1 = 108"
    by (simp_all add: needle_r1_def needle_r2_def needle_mid_def needle_halfNew_def
        needle_half_def needle_r1d_def needle_r2d_def js_round_def)
  have w: "needleWidth 100 (1 / 40) = 3"
    by (simp add: needleWidth_def js_round_def)
  have a: "thetaEnd 0 = pi" by (simp add: thetaEnd_def startAngle_def)
  show ?thesis by (simp add: needleLayer_def r c n w a)
qed

text \<open>
  C3. With the webhook answer \<^verbatim>\<open>{}\<close> and no post sent, \<open>T\<close> is 0 and so is the fallback
  count: \<^verbatim>\<open>displayScore\<close> stays \<^verbatim>\<open>null\<close>. The serverless \<^verbatim>\<open>handler\<close> then sends the
  debug page and \<^verbatim>\<open>/card.png\<close> refuses a render context without a number. In
  \<^verbatim>\<open>server.js\<close>, \<^verbatim>\<open>/fetch\<close> stores the \<^verbatim>\<open>null\<close> in the session and \<^verbatim>\<open>/gauge\<close> renders it:
  the default 50 replaces \<^verbatim>\<open>undefined\<close> only, \<^verbatim>\<open>Number(null) || 0\<close> is 0, and the image is
  the one of a stored score 0, the strongly-bearish background with the needle at the
  left end.
\<close>

theorem C3_server_draws_zero_gauge_without_score:
  "displayScore_server (Some (JObj [])) 0 = None
   \<and> fetch_server (Some (JObj [])) 0 alice = (alice\<lparr>lastScore := StoredNull\<rparr>, DebugPage)
   \<and> gauge_server defaultEnv allLoaded (fst (fetch_server (Some (JObj [])) 0 alice))
       = Png [Background ''strongly-bearish.png'' 1200 628,
              Handle ''@alice'' 300 200 70 ''Manrope'' ''#ffffff'',
              Needle (Hex ''#e6e6e8'') RoundCap 3 530 228 492 228]
   \<and> gauge_server defaultEnv allLoaded (alice\<lparr>lastScore := Stored 0\<rparr>)
       = gauge_server defaultEnv allLoaded (fst (fetch_server (Some (JObj [])) 0 alice))
   \<and> handler defaultEnv (Some (JObj [])) 0 ''alice'' False 1200 628 False = DebugPage
   \<and> card_png defaultEnv allLoaded (Some (None, ''alice'', [])) = Status 400 ''Missing render context''"
proof -
  have ds: "displayScore_server (Some (JObj [])) 0 = None" "displayScore (Some (JObj [])) 0 = None"
    by (simp_all add: displayScore_server_def displayScore_def scoreOf_def denominator_def setTally_def
        numberMember_def fadd_def)
  have f: "fetch_server (Some (JObj [])) 0 alice = (alice\<lparr>lastScore := StoredNull\<rparr>, DebugPage)"
    by (simp add: fetch_server_def ds)
  have bg: "bgFile (clampScore 0) (thresholdsOf defaultEnv) = ''strongly-bearish.png''"
    by (simp add: thresholdsOf_default bgFile_def clampScore_def)
  have c0: "clampScore 0 = 0" by (simp add: clampScore_def)
  have g: "gauge_server defaultEnv allLoaded (alice\<lparr>lastScore := StoredNull\<rparr>)
       = Png [Background ''strongly-bearish.png'' 1200 628,
              Handle ''@alice'' 300 200 70 ''Manrope'' ''#ffffff'',
              Needle (Hex ''#e6e6e8'') RoundCap 3 530 228 492 228]"
    using bg needle_at_zero
    by (simp add: gauge_server_def renderGaugeBuffer_def alice_def allLoaded_def c0
        defaultEnv_rect defaultEnv_handle defaultEnv_needle)
  have g0: "gauge_server defaultEnv allLoaded (alice\<lparr>lastScore := Stored 0\<rparr>)
       = gauge_server defaultEnv allLoaded (alice\<lparr>lastScore := StoredNull\<rparr>)"
    by (simp add: gauge_server_def renderGaugeBuffer_def alice_def allLoaded_def Let_def)
  have h: "handler defaultEnv (Some (JObj [])) 0 ''alice'' False 1200 628 False = DebugPage"
    by (simp add: handler_def ds)
  have c: "card_png defaultEnv allLoaded (Some (None, ''alice'', [])) = Status 400 ''Missing render context''"
    by (simp add: card_png_def)
  from ds f g g0 h c show ?thesis by simp
qed

lemma valueArc_card_layers: "d \<in> set (valueArc_card b s) \<Longrightarrow> layerOf d = LValueArc"
  by (auto simp: valueArc_card_def Let_def)

lemma filter_valueArc_card:
  "filter (\<lambda>d. layerOf d \<noteq> LAvatar) (valueArc_card b s) = valueArc_card b s"
  by (rule filter_True) (simp add: valueArc_card_layers)

text \<open>The outcomes of \<^verbatim>\<open>renderCardPNG\<close>: it returns an image exactly when the background file
  of the score exists and decodes, and an avatar that fails leaves the other layers as
  they are.\<close>

lemma renderCardPNG_outcomes:
  "((\<exists>ops. renderCardPNG e a score uname pfp = Inr ops)
       \<longleftrightarrow> bgExists a (bgFile (clampScore score) (thresholdsOf e))
           \<and> bgLoad a (bgFile (clampScore score) (thresholdsOf e)) \<noteq> None)
   \<and> (\<not> bgExists a (bgFile (clampScore score) (thresholdsOf e))
       \<longrightarrow> renderCardPNG e a score uname pfp
           = Inl (MissingBackgroundAsset (bgFile (clampScore score) (thresholdsOf e))))
   \<and> (bgExists a (bgFile (clampScore score) (thresholdsOf e))
        \<and> bgLoad a (bgFile (clampScore score) (thresholdsOf e)) = None
       \<longrightarrow> renderCardPNG e a score uname pfp
           = Inl (LoadImageFailed (bgFile (clampScore score) (thresholdsOf e))))
   \<and> (\<forall>ops. renderCardPNG e (a\<lparr>pfpFetch := PfpLoaded\<rparr>) score uname pfp = Inr ops
              \<and> x \<noteq> PfpLoaded
       \<longrightarrow> renderCardPNG e (a\<lparr>pfpFetch := x\<rparr>) score uname pfp
           = Inr (filter (\<lambda>d. layerOf d \<noteq> LAvatar) ops))"
  by (auto simp: renderCardPNG_def Let_def filter_valueArc_card avatarLayer_def handleLayer_def
      trackLayer_def needleLayer_def split: option.splits)

lemma card_png_aborts:
  "bgExists a (bgFile (clampScore score) (thresholdsOf e))
     \<and> bgLoad a (bgFile (clampScore score) (thresholdsOf e)) \<noteq> None
   \<or> card_png e a (Some (Some score, uname, pfp)) = Status 500 ''Render failed''"
  using renderCardPNG_outcomes[of e a score uname pfp]
  by (cases "renderCardPNG e a score uname pfp") (auto simp: card_png_def)

text \<open>
  C9. An avatar that cannot be fetched or decoded is omitted and the render completes.
  A background that cannot be read is not replaced by a fill: with no readable background
  file \<^verbatim>\<open>renderCardPNG\<close> throws at its \<^verbatim>\<open>fileExists\<close> guard, with a file that does not decode
  it throws in \<^verbatim>\<open>loadImage\<close>, and \<^verbatim>\<open>/card.png\<close> answers 500; \<^verbatim>\<open>renderGaugeBuffer\<close> of
  \<^verbatim>\<open>server.js\<close> throws in \<^verbatim>\<open>loadImage\<close> and \<^verbatim>\<open>/gauge\<close> answers 500.
\<close>

theorem C9_missing_background_aborts:
  "renderCardPNG defaultEnv noBackground 50 ''alice'' [] = Inl (MissingBackgroundAsset ''neutral.png'')
   \<and> card_png defaultEnv noBackground (Some (Some 50, ''alice'', [])) = Status 500 ''Render failed''
   \<and> renderCardPNG defaultEnv (noBackground\<lparr>bgExists := (\<lambda>f. True)\<rparr>) 50 ''alice'' []
       = Inl (LoadImageFailed ''neutral.png'')
   \<and> card_png defaultEnv (noBackground\<lparr>bgExists := (\<lambda>f. True)\<rparr>) (Some (Some 50, ''alice'', []))
       = Status 500 ''Render failed''
   \<and> renderGaugeBuffer defaultEnv noBackground (alice\<lparr>lastScore := Stored 50\<rparr>)
       = Inl (LoadImageFailed ''neutral.png'')
   \<and> gauge_server defaultEnv noBackground (alice\<lparr>lastScore := Stored 50\<rparr>)
       = Status 500 ''Gauge render failed''
   \<and> renderCardPNG defaultEnv (allLoaded\<lparr>pfpFetch := FetchThrows\<rparr>) 50 ''alice''
         ''https://pbs.example/a.jpg''
       = map_sum id (filter (\<lambda>d. layerOf d \<noteq> LAvatar))
           (renderCardPNG defaultEnv allLoaded 50 ''alice'' ''https://pbs.example/a.jpg'')
   \<and> isl (renderCardPNG defaultEnv allLoaded 50 ''alice'' ''https://pbs.example/a.jpg'') = False"
proof -
  have bg: "bgFile (clampScore 50) (thresholdsOf defaultEnv) = ''neutral.png''"
    by (simp add: thresholdsOf_default bgFile_def clampScore_def)
  have r1: "renderCardPNG defaultEnv noBackground 50 ''alice'' []
      = Inl (MissingBackgroundAsset ''neutral.png'')"
    by (simp add: renderCardPNG_def bg noBackground_def)
  have r2: "renderCardPNG defaultEnv (noBackground\<lparr>bgExists := (\<lambda>f. True)\<rparr>) 50 ''alice'' []
      = Inl (LoadImageFailed ''neutral.png'')"
    by (simp add: renderCardPNG_def bg noBackground_def)
  have r3: "renderGaugeBuffer defaultEnv noBackground (alice\<lparr>lastScore := Stored 50\<rparr>)
      = Inl (LoadImageFailed ''neutral.png'')"
    using bg by (simp add: renderGaugeBuffer_def noBackground_def alice_def)
  have g: "gauge_server defaultEnv noBackground (alice\<lparr>lastScore := Stored 50\<rparr>)
      = Status 500 ''Gauge render failed''"
    unfolding gauge_server_def r3 by (simp add: alice_def)
  have same: "allLoaded\<lparr>pfpFetch := PfpLoaded\<rparr> = allLoaded"
    by (simp add: allLoaded_def)
  have ok: "bgExists allLoaded (bgFile (clampScore 50) (thresholdsOf defaultEnv))"
    "bgLoad allLoaded (bgFile (clampScore 50) (thresholdsOf defaultEnv)) \<noteq> None"
    by (simp_all add: allLoaded_def)
  from renderCardPNG_outcomes[of defaultEnv allLoaded 50 "''alice''" "''https://pbs.example/a.jpg''"
      FetchThrows] same ok
  have av: "renderCardPNG defaultEnv (allLoaded\<lparr>pfpFetch := FetchThrows\<rparr>) 50 ''alice''
         ''https://pbs.example/a.jpg''
       = map_sum id (filter (\<lambda>d. layerOf d \<noteq> LAvatar))
           (renderCardPNG defaultEnv allLoaded 50 ''alice'' ''https://pbs.example/a.jpg'')
     \<and> isl (renderCardPNG defaultEnv allLoaded 50 ''alice'' ''https://pbs.example/a.jpg'') = False"
    by auto
  from r1 r2 r3 g av show ?thesis by (simp add: card_png_def)
qed

subsection \<open>Value arc of the rasterizer\<close>

text \<open>The loop, one step at a time.\<close>

lemma sliceLoop_stop:
  "\<not> (i < segs \<and> u + real i / real segs * sp < te) \<Longrightarrow> sliceLoop te u sp i = []"
  by (subst sliceLoop.simps) (auto simp: Let_def)

lemma sliceLoop_step:
  "i < segs \<Longrightarrow> u + real i / real segs * sp < te \<Longrightarrow>
   sliceLoop te u sp i
     = (midColor (colAt (real i / real segs)) (colAt ((real i + 1) / real segs)),
        u + real i / real segs * sp, min (u + (real i + 1) / real segs * sp) te)
       # (if te \<le> u + (real i + 1) / real segs * sp then [] else sliceLoop te u sp (i + 1))"
  by (subst sliceLoop.simps) (simp add: Let_def)

lemma sliceLoop_length: "length (sliceLoop te u sp i) \<le> segs - i"
proof (induction n \<equiv> "segs - i" arbitrary: i)
  case 0
  then have "sliceLoop te u sp i = []" by (intro sliceLoop_stop) simp
  then show ?case by simp
next
  case (Suc n)
  then have lt: "i < segs" and n: "n = segs - (i + 1)" by simp_all
  show ?case
  proof (cases "u + real i / real segs * sp < te")
    case True
    from Suc.hyps(1)[OF n] lt show ?thesis
      by (auto simp: sliceLoop_step[OF lt True])
  next
    case False
    then show ?thesis by (simp add: sliceLoop_stop)
  qed
qed

lemma sliceLoop_nth:
  "k < length (sliceLoop te u sp i) \<Longrightarrow>
   sliceLoop te u sp i ! k
     = (midColor (colAt (real (i + k) / real segs)) (colAt ((real (i + k) + 1) / real segs)),
        u + real (i + k) / real segs * sp, min (u + (real (i + k) + 1) / real segs * sp) te)"
proof (induction n \<equiv> "segs - i" arbitrary: i k)
  case 0
  then have "sliceLoop te u sp i = []" by (intro sliceLoop_stop) simp
  with "0.prems" show ?case by simp
next
  case (Suc n)
  then have lt: "i < segs" and n: "n = segs - (i + 1)" by simp_all
  show ?case
  proof (cases "u + real i / real segs * sp < te")
    case False
    with Suc.prems show ?thesis by (simp add: sliceLoop_stop)
  next
    case True
    note step = sliceLoop_step[OF lt True]
    show ?thesis
    proof (cases k)
      case 0
      with step show ?thesis by simp
    next
      case (Suc k')
      with Suc.prems step have tl: "\<not> te \<le> u + (real i + 1) / real segs * sp"
        and len: "k' < length (sliceLoop te u sp (i + 1))"
        by (auto split: if_splits)
      from Suc.hyps(1)[OF n len] step tl Suc show ?thesis
        by (simp add: add.commute add.left_commute)
    qed
  qed
qed

lemma sliceLoop_unclipped:
  "Suc k < length (sliceLoop te u sp i) \<Longrightarrow> u + (real (i + k) + 1) / real segs * sp < te"
proof (induction n \<equiv> "segs - i" arbitrary: i k)
  case 0
  then have "sliceLoop te u sp i = []" by (intro sliceLoop_stop) simp
  with "0.prems" show ?case by simp
next
  case (Suc n)
  then have lt: "i < segs" and n: "n = segs - (i + 1)" by simp_all
  show ?case
  proof (cases "u + real i / real segs * sp < te")
    case False
    with Suc.prems show ?thesis by (simp add: sliceLoop_stop)
  next
    case True
    note step = sliceLoop_step[OF lt True]
    from Suc.prems step have tl: "\<not> te \<le> u + (real i + 1) / real segs * sp"
      and len: "k < length (sliceLoop te u sp (i + 1))"
      by (auto split: if_splits)
    show ?thesis
    proof (cases k)
      case 0
      with tl show ?thesis by simp
    next
      case (Suc k')
      with len have "Suc k' < length (sliceLoop te u sp (i + 1))" by simp
      from Suc.hyps(1)[OF n this] Suc show ?thesis
        by (simp add: add.commute add.left_commute)
    qed
  qed
qed

lemma sliceLoop_last:
  "sliceLoop te u sp i \<noteq> [] \<Longrightarrow> te \<le> u + sp \<Longrightarrow>
   snd (snd (last (sliceLoop te u sp i))) = te"
proof (induction n \<equiv> "segs - i" arbitrary: i)
  case 0
  then have "sliceLoop te u sp i = []" by (intro sliceLoop_stop) simp
  with "0.prems" show ?case by simp
next
  case (Suc n)
  then have lt: "i < segs" and n: "n = segs - (i + 1)" by simp_all
  show ?case
  proof (cases "u + real i / real segs * sp < te")
    case False
    with Suc.prems show ?thesis by (simp add: sliceLoop_stop)
  next
    case True
    note step = sliceLoop_step[OF lt True]
    show ?thesis
    proof (cases "te \<le> u + (real i + 1) / real segs * sp")
      case True
      with step show ?thesis by simp
    next
      case False
      have ne: "sliceLoop te u sp (i + 1) \<noteq> []"
      proof
        assume e: "sliceLoop te u sp (i + 1) = []"
        have "\<not> (i + 1 < segs)"
        proof
          assume "i + 1 < segs"
          from sliceLoop_step[OF this] False e show False by (simp add: add.commute)
        qed
        with lt have "real i + 1 = real segs" by linarith
        with lt have "(real i + 1) / real segs = 1" by simp
        with False Suc.prems(2) show False by simp
      qed
      from Suc.hyps(1)[OF n ne Suc.prems(2)] step False ne show ?thesis by simp
    qed
  qed
qed

lemma sliceLoop_complete:
  "i \<le> k \<Longrightarrow> k < segs \<Longrightarrow> 0 \<le> sp \<Longrightarrow> u + real k / real segs * sp < te \<Longrightarrow>
   k - i < length (sliceLoop te u sp i)"
proof (induction n \<equiv> "k - i" arbitrary: i)
  case 0
  then have ik: "i = k" by simp
  with "0.prems" have "i < segs" "u + real i / real segs * sp < te" by simp_all
  from sliceLoop_step[OF this] ik show ?case by simp
next
  case (Suc n)
  then have lt: "i < k" and n: "n = k - (i + 1)" and ik: "i + 1 \<le> k" by simp_all
  from lt Suc.prems have ilt: "i < segs" by simp
  have mono: "real j / real segs * sp \<le> real k / real segs * sp" if "j \<le> k" for j
    using that Suc.prems(3) by (intro mult_right_mono divide_right_mono) simp_all
  from mono[of i] lt Suc.prems(4) have a0: "u + real i / real segs * sp < te" by simp
  from mono[of "i + 1"] ik Suc.prems(4) have a1: "\<not> te \<le> u + (real i + 1) / real segs * sp"
    by (simp add: add.commute)
  from Suc.hyps(1)[OF n ik Suc.prems(2) Suc.prems(3) Suc.prems(4)] lt
  show ?case unfolding sliceLoop_step[OF ilt a0] if_not_P[OF a1] by simp
qed


text \<open>On each half of the ramp the mean of two colours is the colour at the mean.\<close>

lemma colAt_upper: "1 / 2 \<le> t \<Longrightarrow> colAt t = blend gradStop1 gradStop2 ((t - 1 / 2) / (1 / 2))"
  by (cases "t = 1 / 2") (simp_all add: colAt_def gradStop0_def gradStop1_def gradStop2_def)

lemma colAt_mid_lower:
  "t0 \<le> 1 / 2 \<Longrightarrow> t1 \<le> 1 / 2 \<Longrightarrow> midColor (colAt t0) (colAt t1) = roundRgb (colAt ((t0 + t1) / 2))"
  by (simp add: colAt_def gradStop0_def gradStop1_def) (simp add: field_simps)

lemma colAt_mid_upper:
  "1 / 2 \<le> t0 \<Longrightarrow> 1 / 2 \<le> t1 \<Longrightarrow> midColor (colAt t0) (colAt t1) = roundRgb (colAt ((t0 + t1) / 2))"
proof -
  assume a: "1 / 2 \<le> t0" "1 / 2 \<le> t1"
  then have m: "1 / 2 \<le> (t0 + t1) / 2" by simp
  show ?thesis
    unfolding colAt_upper[OF a(1)] colAt_upper[OF a(2)] colAt_upper[OF m]
    by (simp add: gradStop1_def gradStop2_def) (simp add: field_simps)
qed

lemma slice_colour:
  assumes "k < segs"
  shows "midColor (colAt (real k / real segs)) (colAt ((real k + 1) / real segs))
         = roundRgb (colAt ((2 * real k + 1) / 48))"
proof -
  have mid: "(real k / real segs + (real k + 1) / real segs) / 2 = (2 * real k + 1) / 48"
    by (simp add: segs_def field_simps)
  show ?thesis
  proof (cases "k < 12")
    case True
    then have "real k + 1 \<le> 12" by simp
    then have "real k / real segs \<le> 1 / 2" "(real k + 1) / real segs \<le> 1 / 2"
      by (simp_all add: segs_def)
    from colAt_mid_lower[OF this] mid show ?thesis by simp
  next
    case False
    then have "12 \<le> real k" by simp
    then have "1 / 2 \<le> real k / real segs" "1 / 2 \<le> (real k + 1) / real segs"
      by (simp_all add: segs_def)
    from colAt_mid_upper[OF this] mid show ?thesis by simp
  qed
qed

lemma thetaEnd_clamp_le: "thetaEnd (clampScore v) \<le> endAngle"
proof -
  have "clampScore v / 100 \<le> 1" by (simp add: clampScore_def)
  then have "clampScore v / 100 * pi \<le> 1 * pi" by (intro mult_right_mono) simp_all
  then show ?thesis by (simp add: thetaEnd_def startAngle_def endAngle_def)
qed

lemma usable_span: "usableStart b + arcSpan b = endAngle"
  by (simp add: usableStart_def arcSpan_def)

text \<open>
  C2. When the value arc of the (clamped) score extends past the cap segment,
  \<^verbatim>\<open>renderCardPNG\<close> divides the remainder, the span from \<open>usableStart = start + capAngle\<close>
  to the end of the track, into a fixed grid of 24 equal slices (at least 20), and strokes
  every slice that begins before \<open>thetaEnd\<close>, in order: at least one and at most 24
  strokes, all 24 at a full value arc. Stroke \<open>k\<close> starts at \<open>usableStart + k/24 span\<close>,
  ends at \<open>usableStart + (k+1)/24 span\<close> or at \<open>thetaEnd\<close> if that comes first, and has one
  flat colour: the 3-stop ramp at \<open>t = (2k+1)/48\<close>, the fractional position of the middle
  of slice \<open>k\<close> across the whole span of the ramp, each channel interpolated independently
  and rounded. Only the last stroke is clipped, and it ends at \<open>thetaEnd\<close>. The ramp is red
  (217,83,79) at 0, orange (240,173,78) at 1/2 and green (92,184,92) at 1.
\<close>

theorem C2_slices:
  assumes ext: "thetaEnd (clampScore score) > usableStart b"
  shows "(let sl = valueSlices b (clampScore score); te = thetaEnd (clampScore score)
          in 1 \<le> length sl \<and> length sl \<le> 24
           \<and> (\<forall>k < length sl.
                 sl ! k = (roundRgb (colAt ((2 * real k + 1) / 48)),
                           usableStart b + real k / 24 * arcSpan b,
                           min (usableStart b + (real k + 1) / 24 * arcSpan b) te)
                 \<and> usableStart b + real k / 24 * arcSpan b < te)
           \<and> (\<forall>k. Suc k < length sl \<longrightarrow> usableStart b + (real k + 1) / 24 * arcSpan b < te)
           \<and> snd (snd (last sl)) = te)
       \<and> usableStart b = startAngle + capAngle (valueW (radius b)) (radius b)
       \<and> usableStart b + arcSpan b = endAngle
       \<and> colAt 0 = (217, 83, 79) \<and> colAt (1 / 2) = (240, 173, 78) \<and> colAt 1 = (92, 184, 92)
       \<and> segs = 24 \<and> 20 \<le> segs \<and> 0 < arcSpan b
       \<and> (\<forall>k < segs.
             usableStart b + real k / real segs * arcSpan b < thetaEnd (clampScore score)
             \<longrightarrow> k < length (valueSlices b (clampScore score)))
       \<and> (\<forall>k < segs.
             ((usableStart b + real k / real segs * arcSpan b
               + (usableStart b + (real k + 1) / real segs * arcSpan b)) / 2 - usableStart b)
               / (endAngle - usableStart b)
             = (2 * real k + 1) / 48)
       \<and> (thetaEnd (clampScore score) = endAngle
             \<longrightarrow> length (valueSlices b (clampScore score)) = segs)
       \<and> (\<forall>t. 0 \<le> t \<and> t \<le> 1 / 2
             \<longrightarrow> colAt t = (217 + 23 * (2 * t), 83 + 90 * (2 * t), 79 - (2 * t)))
       \<and> (\<forall>t. 1 / 2 < t \<and> t \<le> 1
             \<longrightarrow> colAt t = (240 - 148 * (2 * t - 1), 173 + 11 * (2 * t - 1), 78 + 14 * (2 * t - 1)))
       \<and> valueArc_card b (clampScore score)
           = ValueArc (Rgb 217 83 79) RoundCap (valueW (radius b)) (centerX b) (centerY b)
               (radius b) startAngle (usableStart b)
             # map (\<lambda>(p, a0, a1). ValueArc p RoundCap (valueW (radius b)) (centerX b) (centerY b)
                      (radius b) a0 a1)
                 (valueSlices b (clampScore score))"
proof -
  define te where "te = thetaEnd (clampScore score)"
  define sl where "sl = valueSlices b (clampScore score)"
  have sl: "sl = sliceLoop te (usableStart b) (arcSpan b) 0"
    using ext by (simp add: sl_def te_def valueSlices_def usableStart_def)
  have first: "usableStart b + real 0 / real segs * arcSpan b < te"
    using ext by (simp add: te_def)
  have ne: "sl \<noteq> []"
    unfolding sl using sliceLoop_step[OF _ first] by (simp add: segs_def)
  then have len1: "1 \<le> length sl" by (cases sl) simp_all
  have len24: "length sl \<le> 24"
    unfolding sl using sliceLoop_length[of te "usableStart b" "arcSpan b" 0] by (simp add: segs_def)
  have nth: "\<forall>k < length sl.
      sl ! k = (roundRgb (colAt ((2 * real k + 1) / 48)),
                usableStart b + real k / 24 * arcSpan b,
                min (usableStart b + (real k + 1) / 24 * arcSpan b) te)
      \<and> usableStart b + real k / 24 * arcSpan b < te"
  proof (intro allI impI)
    fix k assume k: "k < length sl"
    with len24 have ks: "k < segs" by (simp add: segs_def)
    from k have k': "k < length (sliceLoop te (usableStart b) (arcSpan b) 0)" by (simp add: sl)
    have started: "usableStart b + real k / 24 * arcSpan b < te"
    proof (cases k)
      case 0
      with first show ?thesis by simp
    next
      case (Suc j)
      with k' have "Suc j < length (sliceLoop te (usableStart b) (arcSpan b) 0)" by simp
      from sliceLoop_unclipped[OF this] Suc show ?thesis by (simp add: segs_def add.commute)
    qed
    from sliceLoop_nth[OF k'] slice_colour[OF ks] started
    show "sl ! k = (roundRgb (colAt ((2 * real k + 1) / 48)),
                usableStart b + real k / 24 * arcSpan b,
                min (usableStart b + (real k + 1) / 24 * arcSpan b) te)
      \<and> usableStart b + real k / 24 * arcSpan b < te"
      by (simp add: sl segs_def)
  qed
  have unclipped: "\<forall>k. Suc k < length sl \<longrightarrow> usableStart b + (real k + 1) / 24 * arcSpan b < te"
  proof (intro allI impI)
    fix k assume "Suc k < length sl"
    then have "Suc k < length (sliceLoop te (usableStart b) (arcSpan b) 0)" by (simp add: sl)
    from sliceLoop_unclipped[OF this]
    show "usableStart b + (real k + 1) / 24 * arcSpan b < te" by (simp add: segs_def)
  qed
  have "te \<le> usableStart b + arcSpan b"
    using thetaEnd_clamp_le[of score] by (simp add: te_def usable_span)
  from sliceLoop_last[OF ne[unfolded sl] this] have last: "snd (snd (last sl)) = te"
    by (simp add: sl)
  have u1: "usableStart b = startAngle + capAngle (valueW (radius b)) (radius b)"
    by (simp add: usableStart_def)
  have stops: "colAt 0 = (217, 83, 79)" "colAt (1 / 2) = (240, 173, 78)" "colAt 1 = (92, 184, 92)"
    by (simp_all add: colAt_def gradStop0_def gradStop1_def gradStop2_def)
  have old: "(let sl = valueSlices b (clampScore score); te = thetaEnd (clampScore score)
          in 1 \<le> length sl \<and> length sl \<le> 24
           \<and> (\<forall>k < length sl.
                 sl ! k = (roundRgb (colAt ((2 * real k + 1) / 48)),
                           usableStart b + real k / 24 * arcSpan b,
                           min (usableStart b + (real k + 1) / 24 * arcSpan b) te)
                 \<and> usableStart b + real k / 24 * arcSpan b < te)
           \<and> (\<forall>k. Suc k < length sl \<longrightarrow> usableStart b + (real k + 1) / 24 * arcSpan b < te)
           \<and> snd (snd (last sl)) = te)"
    using len1 len24 nth unclipped last
    unfolding Let_def sl_def[symmetric] te_def[symmetric]
    by blast
  have sp: "0 < arcSpan b"
    using ext thetaEnd_clamp_le[of score] usable_span[of b] by linarith
  have complete: "\<forall>k < segs.
             usableStart b + real k / real segs * arcSpan b < thetaEnd (clampScore score)
             \<longrightarrow> k < length (valueSlices b (clampScore score))"
  proof (intro allI impI)
    fix k assume k: "k < segs"
      and a: "usableStart b + real k / real segs * arcSpan b < thetaEnd (clampScore score)"
    from sliceLoop_complete[of 0 k "arcSpan b" "usableStart b" te] k a sp
    show "k < length (valueSlices b (clampScore score))"
      by (simp add: sl[unfolded sl_def] te_def)
  qed
  have mid: "\<forall>k < segs.
             ((usableStart b + real k / real segs * arcSpan b
               + (usableStart b + (real k + 1) / real segs * arcSpan b)) / 2 - usableStart b)
               / (endAngle - usableStart b)
             = (2 * real k + 1) / 48"
  proof (intro allI impI)
    fix k :: nat
    have e: "endAngle - usableStart b = arcSpan b" using usable_span[of b] by simp
    have "(usableStart b + real k / 24 * arcSpan b
               + (usableStart b + (real k + 1) / 24 * arcSpan b)) / 2 - usableStart b
          = (2 * real k + 1) / 48 * arcSpan b"
      by (simp add: field_simps)
    then show "((usableStart b + real k / real segs * arcSpan b
               + (usableStart b + (real k + 1) / real segs * arcSpan b)) / 2 - usableStart b)
               / (endAngle - usableStart b)
             = (2 * real k + 1) / 48"
      unfolding e using sp by (simp add: segs_def)
  qed
  have full: "thetaEnd (clampScore score) = endAngle
             \<longrightarrow> length (valueSlices b (clampScore score)) = segs"
  proof
    assume f: "thetaEnd (clampScore score) = endAngle"
    have "usableStart b + real 23 / real segs * arcSpan b < usableStart b + arcSpan b"
      using sp by (simp add: segs_def)
    with complete f usable_span[of b] have "23 < length (valueSlices b (clampScore score))"
      by (simp add: segs_def)
    with len24 show "length (valueSlices b (clampScore score)) = segs"
      by (simp add: sl_def segs_def)
  qed
  have lower: "\<forall>t. 0 \<le> t \<and> t \<le> 1 / 2
             \<longrightarrow> colAt t = (217 + 23 * (2 * t), 83 + 90 * (2 * t), 79 - (2 * t))"
    by (simp add: colAt_def gradStop0_def gradStop1_def)
  have upper: "\<forall>t. 1 / 2 < t \<and> t \<le> 1
             \<longrightarrow> colAt t = (240 - 148 * (2 * t - 1), 173 + 11 * (2 * t - 1), 78 + 14 * (2 * t - 1))"
    by (simp add: colAt_def gradStop1_def gradStop2_def field_simps)
  have capEnd: "min (thetaEnd (clampScore score)) (usableStart b) = usableStart b"
    using ext by simp
  have arc: "valueArc_card b (clampScore score)
           = ValueArc (Rgb 217 83 79) RoundCap (valueW (radius b)) (centerX b) (centerY b)
               (radius b) startAngle (usableStart b)
             # map (\<lambda>(p, a0, a1). ValueArc p RoundCap (valueW (radius b)) (centerX b) (centerY b)
                      (radius b) a0 a1)
                 (valueSlices b (clampScore score))"
    using capEnd by (simp add: valueArc_card_def Let_def usableStart_def)
  have s24: "segs = 24" "20 \<le> segs" by (simp_all add: segs_def)
  show ?thesis
    apply (intro conjI)
                apply (rule old)
               apply (rule u1)
              apply (rule usable_span)
             apply (rule stops(1))
            apply (rule stops(2))
           apply (rule stops(3))
          apply (rule s24(1))
         apply (rule s24(2))
        apply (rule sp)
       apply (rule complete)
      apply (rule mid)
     apply (rule full)
    apply (rule lower)
    apply (rule upper)
    apply (rule arc)
    done
qed


text \<open>The box of radius 300: the value arc is 24 wide and its cap takes 1/25 radian.\<close>

lemma box600_rect: "box600 = \<lparr>rect_x = 0, rect_y = 0, rect_w = 600, rect_h = 600\<rparr>"
  by (simp add: box600_def zeroInsets_rect)

lemma box600_radius: "radius box600 = 300"
  by (simp add: box600_rect radius_def)

lemma box600_valueW: "valueW (radius box600) = 24"
  by (simp add: box600_radius valueW_def js_round_def)

lemma box600_usableStart: "usableStart box600 = pi + 1 / 25"
  by (simp add: usableStart_def box600_valueW capAngle_def startAngle_def) (simp add: box600_radius)

lemma box600_arcSpan: "arcSpan box600 = pi - 1 / 25"
  by (simp add: arcSpan_def box600_valueW capAngle_def startAngle_def endAngle_def)
     (simp add: box600_radius)

lemma thetaEnd_100: "thetaEnd (clampScore 100) = 2 * pi"
  by (simp add: thetaEnd_def clampScore_def startAngle_def endAngle_def)

lemma first_slice_colour: "roundRgb (colAt (1 / 48)) = Rgb 218 87 79"
  by (simp add: colAt_def gradStop0_def gradStop1_def js_round_def)

theorem C2_slices_witness:
  "usableStart box600 < thetaEnd (clampScore 100)
   \<and> 1 \<le> length (valueSlices box600 (clampScore 100))
   \<and> length (valueSlices box600 (clampScore 100)) \<le> 24
   \<and> valueSlices box600 (clampScore 100) ! 0
       = (Rgb 218 87 79, pi + 1 / 25, pi + 1 / 25 + (pi - 1 / 25) / 24)
   \<and> snd (snd (last (valueSlices box600 (clampScore 100)))) = 2 * pi
   \<and> length (valueSlices box600 (clampScore 100)) = 24"
proof -
  have ext: "usableStart box600 < thetaEnd (clampScore 100)"
    using pi_ge_two by (simp add: box600_usableStart thetaEnd_100)
  have clip: "min (pi + 1 / 25 + (pi - 1 / 25) / 24) (2 * pi) = pi + 1 / 25 + (pi - 1 / 25) / 24"
    using pi_ge_two by (intro min_absorb1) (simp add: field_simps)
  from C2_slices[OF ext] have
    len: "1 \<le> length (valueSlices box600 (clampScore 100))"
      "length (valueSlices box600 (clampScore 100)) \<le> 24"
    and nth: "\<forall>k < length (valueSlices box600 (clampScore 100)).
        valueSlices box600 (clampScore 100) ! k
          = (roundRgb (colAt ((2 * real k + 1) / 48)),
             usableStart box600 + real k / 24 * arcSpan box600,
             min (usableStart box600 + (real k + 1) / 24 * arcSpan box600)
               (thetaEnd (clampScore 100)))
        \<and> usableStart box600 + real k / 24 * arcSpan box600 < thetaEnd (clampScore 100)"
    and last: "snd (snd (last (valueSlices box600 (clampScore 100)))) = thetaEnd (clampScore 100)"
    and full: "thetaEnd (clampScore 100) = endAngle
        \<longrightarrow> length (valueSlices box600 (clampScore 100)) = segs"
    unfolding Let_def by blast+
  from full have l24: "length (valueSlices box600 (clampScore 100)) = 24"
    by (simp add: thetaEnd_100 endAngle_def segs_def)
  from len have "0 < length (valueSlices box600 (clampScore 100))" by linarith
  with nth have "valueSlices box600 (clampScore 100) ! 0
          = (roundRgb (colAt ((2 * real 0 + 1) / 48)),
             usableStart box600 + real 0 / 24 * arcSpan box600,
             min (usableStart box600 + (real 0 + 1) / 24 * arcSpan box600)
               (thetaEnd (clampScore 100)))"
    by blast
  then have first: "valueSlices box600 (clampScore 100) ! 0
       = (Rgb 218 87 79, pi + 1 / 25, pi + 1 / 25 + (pi - 1 / 25) / 24)"
    using clip by (simp add: first_slice_colour box600_usableStart box600_arcSpan thetaEnd_100)
  from ext len first last l24 show ?thesis by (simp add: thetaEnd_100)
qed

subsection \<open>The backends compared\<close>

lemma drawValue_short:
  "thetaEnd s \<le> usableStart b \<Longrightarrow> drawValue b s = valueArc_card b s"
  by (simp add: drawValue_def valueArc_card_def valueSlices_def usableStart_def Let_def C_RED_def)

lemma drawValue_long:
  "usableStart b < thetaEnd s \<Longrightarrow>
   drawValue b s
     = [ValueArc (Rgb 217 83 79) RoundCap (valueW (radius b)) (centerX b) (centerY b) (radius b)
          startAngle (usableStart b),
        ValueArc (Conic (usableStart b + 1 / 10000) (centerX b) (centerY b)
                   [(0, 217, 83, 79), (1 / 2, 240, 173, 78), (1, 92, 184, 92)])
          ButtCap (valueW (radius b)) (centerX b) (centerY b) (radius b)
          (usableStart b) (thetaEnd s)]"
  by (simp add: drawValue_def usableStart_def Let_def C_RED_def)

lemma valueArc_card_long:
  "usableStart b < thetaEnd s \<Longrightarrow>
   valueArc_card b s
     = ValueArc (Rgb 217 83 79) RoundCap (valueW (radius b)) (centerX b) (centerY b) (radius b)
         startAngle (usableStart b)
       # map (\<lambda>(p, a0, a1). ValueArc p RoundCap (valueW (radius b)) (centerX b) (centerY b)
                (radius b) a0 a1)
           (sliceLoop (thetaEnd s) (usableStart b) (arcSpan b) 0)"
  by (simp add: valueArc_card_def valueSlices_def usableStart_def Let_def)

lemma sliceLoop_covers:
  assumes "u < te" "te \<le> u + sp"
  shows "sliceLoop te u sp 0 \<noteq> []
       \<and> fst (snd (hd (sliceLoop te u sp 0))) = u
       \<and> snd (snd (last (sliceLoop te u sp 0))) = te"
proof -
  have first: "u + real 0 / real segs * sp < te" using assms by simp
  have pos: "0 < segs" by (simp add: segs_def)
  from sliceLoop_step[OF pos first] have ne: "sliceLoop te u sp 0 \<noteq> []"
    and h: "fst (snd (hd (sliceLoop te u sp 0))) = u"
    by simp_all
  from sliceLoop_last[OF ne assms(2)] ne h show ?thesis by simp
qed

lemma map_layerOf_drawValue:
  "map layerOf (drawValue b s) = [LValueArc] \<or> map layerOf (drawValue b s) = [LValueArc, LValueArc]"
  by (simp add: drawValue_def Let_def)

text \<open>
  The calls of the three renderers side by side, for the same score, user name (not
  empty), avatar outcome, configuration and background image (loaded, of non-zero size).
  The canvas of the serverless \<^verbatim>\<open>handler\<close> and \<^verbatim>\<open>renderCardPNG\<close> make the same calls in the
  same order: background, avatar when it has loaded, handle text, track, the red cap
  segment of the value arc, the fill of the arc, needle; the calls are equal but for the
  font face of the handle text and for the fill, one butt-capped conic stroke on the
  canvas and the round-capped flat slices in the rasterizer. \<^verbatim>\<open>renderGaugeBuffer\<close> of
  \<^verbatim>\<open>server.js\<close> makes the background, avatar, handle and needle calls only.
\<close>

lemma backends_calls:
  assumes bgE: "bgExists a (bgFile (clampScore score) (thresholdsOf e))"
    and bgL: "bgLoad a (bgFile (clampScore score) (thresholdsOf e)) = Some (W, H)"
    and size: "W \<noteq> 0" "H \<noteq> 0"
    and name: "uname \<noteq> []"
    and avatar: "(hasPfp \<and> pfpOk) = (pfp \<noteq> [] \<and> pfpFetch a = PfpLoaded)"
    and sess: "sess = \<lparr>username = uname, profileImageUrl = pfp, lastScore = Stored d\<rparr>"
    and score: "score = real_of_int d"
  shows "(let b = gaugeRect W H e; s = clampScore score;
              vw = valueW (radius b); cx = centerX b; cy = centerY b; r = radius b;
              back = Background (bgFile s (thresholdsOf e)) W H;
              av = (if hasPfp \<and> pfpOk then [avatarLayer e] else []);
              capSeg = ValueArc (Rgb 217 83 79) RoundCap vw cx cy r startAngle
                         (min (thetaEnd s) (usableStart b));
              needle = needleLayer b s (needleScale e) (needleWidthFrac e)
          in canvasDraw e score uname hasPfp W H pfpOk
               = [back] @ av @ [handleLayer e (CHR ''@'' # uname) ''700 ManropeBold'', trackLayer b]
                 @ capSeg # tl (drawValue b s) @ [needle]
           \<and> renderCardPNG e a score uname pfp
               = Inr ([back] @ av
                      @ [handleLayer e (CHR ''@'' # uname)
                           ''700 ManropeBold, system-ui, -apple-system, Segoe UI, Roboto, Helvetica, Arial, sans-serif'',
                         trackLayer b]
                      @ capSeg # tl (valueArc_card b s) @ [needle])
           \<and> renderGaugeBuffer e a sess
               = Inr ([back] @ av @ [handleLayer e (CHR ''@'' # uname) ''Manrope''] @ [needle])
           \<and> (thetaEnd s \<le> usableStart b
                \<longrightarrow> tl (drawValue b s) = [] \<and> tl (valueArc_card b s) = [])
           \<and> (usableStart b < thetaEnd s
                \<longrightarrow> tl (drawValue b s)
                      = [ValueArc (Conic (usableStart b + 1 / 10000) cx cy
                                    [(0, 217, 83, 79), (1 / 2, 240, 173, 78), (1, 92, 184, 92)])
                           ButtCap vw cx cy r (usableStart b) (thetaEnd s)]
                  \<and> tl (valueArc_card b s)
                      = map (\<lambda>(p, a0, a1). ValueArc p RoundCap vw cx cy r a0 a1) (valueSlices b s)
                  \<and> valueSlices b s \<noteq> []
                  \<and> fst (snd (hd (valueSlices b s))) = usableStart b
                  \<and> snd (snd (last (valueSlices b s))) = thetaEnd s))"
proof -
  define b where "b = gaugeRect W H e"
  define s where "s = clampScore score"
  have short: "thetaEnd s \<le> usableStart b \<Longrightarrow>
      drawValue b s = [ValueArc (Rgb 217 83 79) RoundCap (valueW (radius b)) (centerX b) (centerY b)
                         (radius b) startAngle (min (thetaEnd s) (usableStart b))]
      \<and> valueArc_card b s = drawValue b s"
    using drawValue_short[of s b]
    by (simp add: valueArc_card_def valueSlices_def usableStart_def Let_def min_absorb1)
  have long: "usableStart b < thetaEnd s \<Longrightarrow>
      drawValue b s = ValueArc (Rgb 217 83 79) RoundCap (valueW (radius b)) (centerX b) (centerY b)
                         (radius b) startAngle (min (thetaEnd s) (usableStart b)) # tl (drawValue b s)
      \<and> valueArc_card b s = ValueArc (Rgb 217 83 79) RoundCap (valueW (radius b)) (centerX b)
                         (centerY b) (radius b) startAngle (min (thetaEnd s) (usableStart b))
                       # tl (valueArc_card b s)"
    by (simp add: drawValue_long valueArc_card_long min_absorb2)
  have dv: "drawValue b s = ValueArc (Rgb 217 83 79) RoundCap (valueW (radius b)) (centerX b) (centerY b)
                         (radius b) startAngle (min (thetaEnd s) (usableStart b)) # tl (drawValue b s)"
    using short long by (cases "thetaEnd s \<le> usableStart b") auto
  have vc: "valueArc_card b s = ValueArc (Rgb 217 83 79) RoundCap (valueW (radius b)) (centerX b)
                         (centerY b) (radius b) startAngle (min (thetaEnd s) (usableStart b))
                       # tl (valueArc_card b s)"
    using short long dv by (cases "thetaEnd s \<le> usableStart b") auto
  have canvas: "canvasDraw e score uname hasPfp W H pfpOk
      = [Background (bgFile s (thresholdsOf e)) W H]
        @ (if hasPfp \<and> pfpOk then [avatarLayer e] else [])
        @ [handleLayer e (CHR ''@'' # uname) ''700 ManropeBold'', trackLayer b]
        @ ValueArc (Rgb 217 83 79) RoundCap (valueW (radius b)) (centerX b) (centerY b)
            (radius b) startAngle (min (thetaEnd s) (usableStart b))
          # tl (drawValue b s) @ [needleLayer b s (needleScale e) (needleWidthFrac e)]"
    using dv by (simp add: canvasDraw_def Let_def b_def[symmetric] s_def[symmetric])
  have card: "renderCardPNG e a score uname pfp
      = Inr ([Background (bgFile s (thresholdsOf e)) W H]
        @ (if hasPfp \<and> pfpOk then [avatarLayer e] else [])
        @ [handleLayer e (CHR ''@'' # uname)
             ''700 ManropeBold, system-ui, -apple-system, Segoe UI, Roboto, Helvetica, Arial, sans-serif'',
           trackLayer b]
        @ ValueArc (Rgb 217 83 79) RoundCap (valueW (radius b)) (centerX b) (centerY b)
            (radius b) startAngle (min (thetaEnd s) (usableStart b))
          # tl (valueArc_card b s) @ [needleLayer b s (needleScale e) (needleWidthFrac e)])"
    using bgE bgL size name avatar vc
    by (simp add: renderCardPNG_def Let_def b_def[symmetric] s_def[symmetric])
  have srv: "renderGaugeBuffer e a sess
      = Inr ([Background (bgFile s (thresholdsOf e)) W H]
        @ (if hasPfp \<and> pfpOk then [avatarLayer e] else [])
        @ [handleLayer e (CHR ''@'' # uname) ''Manrope'']
        @ [needleLayer b s (needleScale e) (needleWidthFrac e)])"
    using bgL avatar
    by (simp add: renderGaugeBuffer_def Let_def sess score b_def s_def)
  have nofill: "thetaEnd s \<le> usableStart b \<longrightarrow> tl (drawValue b s) = [] \<and> tl (valueArc_card b s) = []"
    using short by auto
  have te: "thetaEnd s \<le> usableStart b + arcSpan b"
    using thetaEnd_clamp_le[of score] by (simp add: s_def usable_span)
  have fill: "usableStart b < thetaEnd s
                \<longrightarrow> tl (drawValue b s)
                      = [ValueArc (Conic (usableStart b + 1 / 10000) (centerX b) (centerY b)
                                    [(0, 217, 83, 79), (1 / 2, 240, 173, 78), (1, 92, 184, 92)])
                           ButtCap (valueW (radius b)) (centerX b) (centerY b) (radius b)
                           (usableStart b) (thetaEnd s)]
                  \<and> tl (valueArc_card b s)
                      = map (\<lambda>(p, a0, a1). ValueArc p RoundCap (valueW (radius b)) (centerX b)
                                (centerY b) (radius b) a0 a1) (valueSlices b s)
                  \<and> valueSlices b s \<noteq> []
                  \<and> fst (snd (hd (valueSlices b s))) = usableStart b
                  \<and> snd (snd (last (valueSlices b s))) = thetaEnd s"
  proof
    assume lt: "usableStart b < thetaEnd s"
    then have vs: "valueSlices b s = sliceLoop (thetaEnd s) (usableStart b) (arcSpan b) 0"
      by (simp add: valueSlices_def usableStart_def)
    from sliceLoop_covers[OF lt te] vs drawValue_long[OF lt] valueArc_card_long[OF lt]
    show "tl (drawValue b s)
                      = [ValueArc (Conic (usableStart b + 1 / 10000) (centerX b) (centerY b)
                                    [(0, 217, 83, 79), (1 / 2, 240, 173, 78), (1, 92, 184, 92)])
                           ButtCap (valueW (radius b)) (centerX b) (centerY b) (radius b)
                           (usableStart b) (thetaEnd s)]
                  \<and> tl (valueArc_card b s)
                      = map (\<lambda>(p, a0, a1). ValueArc p RoundCap (valueW (radius b)) (centerX b)
                                (centerY b) (radius b) a0 a1) (valueSlices b s)
                  \<and> valueSlices b s \<noteq> []
                  \<and> fst (snd (hd (valueSlices b s))) = usableStart b
                  \<and> snd (snd (last (valueSlices b s))) = thetaEnd s"
      by simp
  qed
  from canvas card srv nofill fill show ?thesis
    unfolding Let_def b_def[symmetric] s_def[symmetric] by blast
qed


lemma layerOf_layers:
  "layerOf (handleLayer e txt face) = LHandle"
  "layerOf (trackLayer b) = LTrack"
  "layerOf (needleLayer b s k w) = LNeedle"
  "layerOf (avatarLayer e) = LAvatar"
  by (simp_all add: handleLayer_def trackLayer_def needleLayer_def avatarLayer_def Let_def)

lemma map_layerOf_valueArc_card:
  "map layerOf (valueArc_card b s) = replicate (Suc (length (valueSlices b s))) LValueArc"
proof -
  have "map (\<lambda>x. layerOf (case x of (p, a0, a1) \<Rightarrow> ValueArc p c vw cx cy r a0 a1)) xs
      = replicate (length xs) LValueArc" for c vw cx cy r and xs :: "(paint \<times> real \<times> real) list"
    by (induction xs) auto
  then show ?thesis by (simp add: valueArc_card_def Let_def comp_def)
qed

lemma valueSlices_full:
  assumes "usableStart b < endAngle" "thetaEnd s = endAngle"
  shows "length (valueSlices b s) = 24"
proof -
  have sp: "0 < arcSpan b" using assms(1) usable_span[of b] by linarith
  have vs: "valueSlices b s = sliceLoop endAngle (usableStart b) (arcSpan b) 0"
    using assms by (simp add: valueSlices_def usableStart_def)
  have "usableStart b + real 23 / real segs * arcSpan b < usableStart b + arcSpan b"
    using sp by (simp add: segs_def)
  then have "usableStart b + real 23 / real segs * arcSpan b < endAngle"
    by (simp only: usable_span)
  from sliceLoop_complete[of 0 23 "arcSpan b" "usableStart b" endAngle, OF _ _ _ this] sp
  have "23 < length (sliceLoop endAngle (usableStart b) (arcSpan b) 0)"
    by (simp add: segs_def)
  moreover have "length (sliceLoop endAngle (usableStart b) (arcSpan b) 0) \<le> 24"
    using sliceLoop_length[of endAngle "usableStart b" "arcSpan b" 0] by (simp add: segs_def)
  ultimately show ?thesis by (simp add: vs)
qed

text \<open>On \<open>defaultBox\<close> the radius is 100 and the centre (600, 228).\<close>

lemma defaultBox_geometry:
  "radius defaultBox = 100" "centerX defaultBox = 600" "centerY defaultBox = 228"
  "trackW 100 = 11" "valueW 100 = 8" "capAngle 8 100 = 1 / 25"
  by (simp_all add: radius_def centerX_def centerY_def trackW_def valueW_def capAngle_def
      js_round_def)

lemma defaultBox_usableStart: "usableStart defaultBox = pi + 1 / 25"
  by (simp add: usableStart_def defaultBox_geometry startAngle_def)

lemma thetaEnd_full: "thetaEnd (clampScore 100) = 2 * pi" "thetaEnd 100 = 2 * pi"
  by (simp_all add: thetaEnd_def clampScore_def startAngle_def endAngle_def)

lemma defaultEnv_avatar: "avatarLayer defaultEnv = Avatar 175 200 100"
  by (simp add: avatarLayer_def defaultEnv_def intish_eval)

lemma shortNeedle_layers:
  "gaugeRect 1200 628 shortNeedle = defaultBox"
  "avatarLayer shortNeedle = Avatar 175 200 100"
  "handleLayer shortNeedle txt face = Handle txt 300 200 70 face ''#ffffff''"
  "needleScale shortNeedle = 1 / 10" "needleWidthFrac shortNeedle = 1 / 40"
  "orElse (NEEDLE_LEN_SCALE shortNeedle) 1 = 1 / 20"
  "orElse (NEEDLE_WIDTH_FRAC shortNeedle) (1 / 40) = 1 / 40"
  by (simp_all add: shortNeedle_def gaugeRect_def avatarLayer_def handleLayer_def needleScale_def
      needleWidthFrac_def orElse_def defaultEnv_def intish_eval)

lemma needle_at_full:
  "needleLayer defaultBox 100 k (1 / 40)
     = Needle (Hex ''#e6e6e8'') RoundCap 3 (689 - 19 * k) 228 (689 + 19 * k) 228"
proof -
  have n: "needle_r1 100 k = 89 - 19 * k" "needle_r2 100 k = 89 + 19 * k"
    by (simp_all add: needle_r1_def needle_r2_def needle_mid_def needle_halfNew_def
        needle_half_def needle_r1d_def needle_r2d_def js_round_def)
  have w: "needleWidth 100 (1 / 40) = 3"
    by (simp add: needleWidth_def js_round_def)
  show ?thesis by (simp add: needleLayer_def defaultBox_geometry n w thetaEnd_full)
qed

lemma drawValue_full:
  "drawValue defaultBox 100
     = [ValueArc (Rgb 217 83 79) RoundCap 8 600 228 100 pi (pi + 1 / 25),
        ValueArc (Conic (pi + 1 / 25 + 1 / 10000) 600 228
                   [(0, 217, 83, 79), (1 / 2, 240, 173, 78), (1, 92, 184, 92)])
          ButtCap 8 600 228 100 (pi + 1 / 25) (2 * pi)]"
proof -
  have "usableStart defaultBox < thetaEnd 100"
    using pi_ge_two by (simp add: defaultBox_usableStart thetaEnd_full)
  from drawValue_long[OF this] show ?thesis
    by (simp add: defaultBox_usableStart defaultBox_geometry thetaEnd_full startAngle_def)
qed

text \<open>
  C6. For the same score, user, avatar, configuration and background image the backends
  do not make the same layers. At score 100 with an avatar, on the default configuration
  and the 1200 by 628 background, the canvas of the serverless \<^verbatim>\<open>handler\<close> draws
  background, avatar, handle text, track, the cap segment and the conic fill of the value
  arc, and the needle, and \<^verbatim>\<open>renderCardPNG\<close> the same layers with the cap segment and 24
  flat slices for the arc; \<^verbatim>\<open>renderGaugeBuffer\<close> of \<^verbatim>\<open>server.js\<close> draws background, avatar,
  handle text and needle, and neither track nor value arc. With the needle scale 0.05 the
  canvas of \<^verbatim>\<open>gaugeHtml\<close> draws the needle from 688.05 to 689.95, scaled by the unclamped
  0.05, where the other backends draw it from 687.1 to 690.9, scaled by the floor 0.1;
  on the default configuration the two canvases make the same calls.
\<close>

theorem C6_server_omits_track_and_value_arc:
  "renderGaugeBuffer defaultEnv allLoaded aliceFull
     = Inr [Background ''strongly-bullish.png'' 1200 628,
            Avatar 175 200 100,
            Handle ''@alice'' 300 200 70 ''Manrope'' ''#ffffff'',
            Needle (Hex ''#e6e6e8'') RoundCap 3 670 228 708 228]
   \<and> canvasDraw defaultEnv 100 ''alice'' True 1200 628 True
     = [Background ''strongly-bullish.png'' 1200 628,
        Avatar 175 200 100,
        Handle ''@alice'' 300 200 70 ''700 ManropeBold'' ''#ffffff'',
        Track (Hex ''#090f00'') RoundCap 11 600 228 100 pi (2 * pi),
        ValueArc (Rgb 217 83 79) RoundCap 8 600 228 100 pi (pi + 1 / 25),
        ValueArc (Conic (pi + 1 / 25 + 1 / 10000) 600 228
                   [(0, 217, 83, 79), (1 / 2, 240, 173, 78), (1, 92, 184, 92)])
          ButtCap 8 600 228 100 (pi + 1 / 25) (2 * pi),
        Needle (Hex ''#e6e6e8'') RoundCap 3 670 228 708 228]
   \<and> map_sum id (map layerOf)
         (renderCardPNG defaultEnv allLoaded 100 ''alice'' ''https://pbs.example/a.jpg'')
     = Inr ([LBackground, LAvatar, LHandle, LTrack] @ replicate 25 LValueArc @ [LNeedle])
   \<and> map_sum id (filter (\<lambda>d. layerOf d \<noteq> LValueArc))
         (renderCardPNG defaultEnv allLoaded 100 ''alice'' ''https://pbs.example/a.jpg'')
     = Inr [Background ''strongly-bullish.png'' 1200 628,
            Avatar 175 200 100,
            Handle ''@alice'' 300 200 70
              ''700 ManropeBold, system-ui, -apple-system, Segoe UI, Roboto, Helvetica, Arial, sans-serif''
              ''#ffffff'',
            Track (Hex ''#090f00'') RoundCap 11 600 228 100 pi (2 * pi),
            Needle (Hex ''#e6e6e8'') RoundCap 3 670 228 708 228]
   \<and> map_sum id (map layerOf) (renderGaugeBuffer defaultEnv allLoaded aliceFull)
     = Inr [LBackground, LAvatar, LHandle, LNeedle]
   \<and> map layerOf (canvasDraw defaultEnv 100 ''alice'' True 1200 628 True)
     = [LBackground, LAvatar, LHandle, LTrack, LValueArc, LValueArc, LNeedle]
   \<and> canvasDraw_gaugeHtml defaultEnv 100 ''alice'' True 1200 628 True
     = canvasDraw defaultEnv 100 ''alice'' True 1200 628 True
   \<and> last (canvasDraw_gaugeHtml shortNeedle 100 ''alice'' True 1200 628 True)
     = Needle (Hex ''#e6e6e8'') RoundCap 3 (13761 / 20) 228 (13799 / 20) 228
   \<and> last (canvasDraw shortNeedle 100 ''alice'' True 1200 628 True)
     = Needle (Hex ''#e6e6e8'') RoundCap 3 (6871 / 10) 228 (6909 / 10) 228
   \<and> map_sum id last (renderCardPNG shortNeedle allLoaded 100 ''alice'' [])
     = Inr (Needle (Hex ''#e6e6e8'') RoundCap 3 (6871 / 10) 228 (6909 / 10) 228)
   \<and> map_sum id last (renderGaugeBuffer shortNeedle allLoaded aliceFull)
     = Inr (Needle (Hex ''#e6e6e8'') RoundCap 3 (6871 / 10) 228 (6909 / 10) 228)"
proof -
  have cl: "clampScore 100 = 100" by (simp add: clampScore_def)
  have bg: "bgFile 100 (thresholdsOf defaultEnv) = ''strongly-bullish.png''"
    "bgFile 100 (thresholdsOf_gaugeHtml defaultEnv) = ''strongly-bullish.png''"
    by (simp add: thresholdsOf_default bgFile_def)
       (simp add: thresholdsOf_gaugeHtml_def bgFile_def defaultEnv_def intish_eval)
  have nd: "needleLayer defaultBox 100 1 (1 / 40)
      = Needle (Hex ''#e6e6e8'') RoundCap 3 670 228 708 228"
    by (simp add: needle_at_full)
  have n10: "needleLayer defaultBox 100 (1 / 10) (1 / 40)
      = Needle (Hex ''#e6e6e8'') RoundCap 3 (6871 / 10) 228 (6909 / 10) 228"
    by (simp add: needle_at_full)
  have n20: "needleLayer defaultBox 100 (1 / 20) (1 / 40)
      = Needle (Hex ''#e6e6e8'') RoundCap 3 (13761 / 20) 228 (13799 / 20) 228"
    by (simp add: needle_at_full)
  have tr: "trackLayer defaultBox = Track (Hex ''#090f00'') RoundCap 11 600 228 100 pi (2 * pi)"
    by (simp add: trackLayer_def defaultBox_geometry startAngle_def endAngle_def)
  have srv: "renderGaugeBuffer defaultEnv allLoaded aliceFull
     = Inr [Background ''strongly-bullish.png'' 1200 628,
            Avatar 175 200 100,
            Handle ''@alice'' 300 200 70 ''Manrope'' ''#ffffff'',
            Needle (Hex ''#e6e6e8'') RoundCap 3 670 228 708 228]"
    by (simp add: renderGaugeBuffer_def aliceFull_def allLoaded_def cl bg defaultEnv_rect
        defaultEnv_avatar defaultEnv_handle defaultEnv_needle nd)
  have canvas: "canvasDraw defaultEnv 100 ''alice'' True 1200 628 True
     = [Background ''strongly-bullish.png'' 1200 628,
        Avatar 175 200 100,
        Handle ''@alice'' 300 200 70 ''700 ManropeBold'' ''#ffffff'',
        Track (Hex ''#090f00'') RoundCap 11 600 228 100 pi (2 * pi),
        ValueArc (Rgb 217 83 79) RoundCap 8 600 228 100 pi (pi + 1 / 25),
        ValueArc (Conic (pi + 1 / 25 + 1 / 10000) 600 228
                   [(0, 217, 83, 79), (1 / 2, 240, 173, 78), (1, 92, 184, 92)])
          ButtCap 8 600 228 100 (pi + 1 / 25) (2 * pi),
        Needle (Hex ''#e6e6e8'') RoundCap 3 670 228 708 228]"
    by (simp add: canvasDraw_def cl bg defaultEnv_rect defaultEnv_avatar defaultEnv_handle
        defaultEnv_needle nd tr drawValue_full)
  have html: "canvasDraw_gaugeHtml defaultEnv 100 ''alice'' True 1200 628 True
     = canvasDraw defaultEnv 100 ''alice'' True 1200 628 True"
    unfolding canvas
    by (simp add: canvasDraw_gaugeHtml_def cl bg defaultEnv_rect defaultEnv_avatar nd tr
        drawValue_full)
       (simp add: defaultEnv_def intish_eval orElse_def nd)
  have full: "length (valueSlices defaultBox 100) = 24"
    using pi_ge_two
    by (intro valueSlices_full) (simp_all add: defaultBox_usableStart thetaEnd_full endAngle_def)
  have card: "renderCardPNG defaultEnv allLoaded 100 ''alice'' ''https://pbs.example/a.jpg''
     = Inr ([Background ''strongly-bullish.png'' 1200 628,
            Avatar 175 200 100,
            Handle ''@alice'' 300 200 70
              ''700 ManropeBold, system-ui, -apple-system, Segoe UI, Roboto, Helvetica, Arial, sans-serif''
              ''#ffffff'',
            Track (Hex ''#090f00'') RoundCap 11 600 228 100 pi (2 * pi)]
           @ valueArc_card defaultBox 100
           @ [Needle (Hex ''#e6e6e8'') RoundCap 3 670 228 708 228])"
    by (simp add: renderCardPNG_def allLoaded_def cl bg defaultEnv_rect defaultEnv_avatar
        defaultEnv_handle defaultEnv_needle nd tr)
  have noarc: "filter (\<lambda>d. layerOf d \<noteq> LValueArc) (valueArc_card defaultBox 100) = []"
    by (simp add: filter_empty_conv valueArc_card_layers)
  have cardLayers: "map_sum id (map layerOf)
         (renderCardPNG defaultEnv allLoaded 100 ''alice'' ''https://pbs.example/a.jpg'')
     = Inr ([LBackground, LAvatar, LHandle, LTrack] @ replicate 25 LValueArc @ [LNeedle])"
    unfolding card by (simp add: map_layerOf_valueArc_card full)
  have cardRest: "map_sum id (filter (\<lambda>d. layerOf d \<noteq> LValueArc))
         (renderCardPNG defaultEnv allLoaded 100 ''alice'' ''https://pbs.example/a.jpg'')
     = Inr [Background ''strongly-bullish.png'' 1200 628,
            Avatar 175 200 100,
            Handle ''@alice'' 300 200 70
              ''700 ManropeBold, system-ui, -apple-system, Segoe UI, Roboto, Helvetica, Arial, sans-serif''
              ''#ffffff'',
            Track (Hex ''#090f00'') RoundCap 11 600 228 100 pi (2 * pi),
            Needle (Hex ''#e6e6e8'') RoundCap 3 670 228 708 228]"
    unfolding card by (simp add: noarc)
  have srvLayers: "map_sum id (map layerOf) (renderGaugeBuffer defaultEnv allLoaded aliceFull)
     = Inr [LBackground, LAvatar, LHandle, LNeedle]"
    unfolding srv by simp
  have canvasLayers: "map layerOf (canvasDraw defaultEnv 100 ''alice'' True 1200 628 True)
     = [LBackground, LAvatar, LHandle, LTrack, LValueArc, LValueArc, LNeedle]"
    unfolding canvas by simp
  have h20: "last (canvasDraw_gaugeHtml shortNeedle 100 ''alice'' True 1200 628 True)
     = Needle (Hex ''#e6e6e8'') RoundCap 3 (13761 / 20) 228 (13799 / 20) 228"
    by (simp add: canvasDraw_gaugeHtml_def Let_def cl shortNeedle_layers n20)
  have c10: "last (canvasDraw shortNeedle 100 ''alice'' True 1200 628 True)
     = Needle (Hex ''#e6e6e8'') RoundCap 3 (6871 / 10) 228 (6909 / 10) 228"
    by (simp add: canvasDraw_def Let_def cl shortNeedle_layers n10)
  have k10: "map_sum id last (renderCardPNG shortNeedle allLoaded 100 ''alice'' [])
     = Inr (Needle (Hex ''#e6e6e8'') RoundCap 3 (6871 / 10) 228 (6909 / 10) 228)"
    by (simp add: renderCardPNG_def Let_def allLoaded_def cl shortNeedle_layers n10)
  have s10: "map_sum id last (renderGaugeBuffer shortNeedle allLoaded aliceFull)
     = Inr (Needle (Hex ''#e6e6e8'') RoundCap 3 (6871 / 10) 228 (6909 / 10) 228)"
    by (simp add: renderGaugeBuffer_def Let_def aliceFull_def allLoaded_def cl shortNeedle_layers n10)
  show ?thesis
    apply (intro conjI)
              apply (rule srv)
             apply (rule canvas)
            apply (rule cardLayers)
           apply (rule cardRest)
          apply (rule srvLayers)
         apply (rule canvasLayers)
        apply (rule html)
       apply (rule h20)
      apply (rule c10)
     apply (rule k10)
    apply (rule s10)
    done
qed

end
